theory Spec2Isabelle
  imports Complex_Main "HOL-Library.Log_Nat"
begin

section \<open>Ratio engine of the financial dashboard (app/utils/financial.ts)\<close>

text \<open>
  The module is a library of eleven compute functions (two operands to a ratio) and eleven
  classify functions (a ratio to a judgment record). A \<open>throw new Error(msg)\<close> is the left
  injection of a sum type.

  A TypeScript \<open>number\<close> is a binary64 floating-point number. The compute functions
  are given twice. The functions \<open>calculatePSR\<close>, ... work on \<^typ>\<open>real\<close>: the finite
  numbers with exact arithmetic. On these the guard and the error of a function are those
  of the code, since a comparison with zero is exact, and the ratio is the one of exact
  arithmetic. The functions \<open>calculatePSR_f64\<close>, ... work on binary64 numbers, with the
  not-a-number, the infinities, the negative zero, and every operation rounded as
  IEEE 754 prescribes: their result is the number the code returns.

  The classify functions only compare their argument with constants. They are given on
  \<^typ>\<open>real\<close>, where every finite binary64 number is found and the comparison is the one
  of the code.
\<close>

subsection \<open>Data model\<close>

datatype error = Error string

text \<open>The string-literal union types of the five judgment interfaces.\<close>

datatype PSRLevel = PSR_undervalued | PSR_fair | PSR_high | PSR_very_high

datatype SafetyLevel = Safety_excellent | Safety_good | Safety_fair | Safety_warning

datatype GrowthLevel = Growth_strong | Growth_moderate | Growth_stable | Growth_declining

datatype ProfitabilityLevel = Prof_excellent | Prof_good | Prof_fair | Prof_poor

datatype ValuationLevel = Val_undervalued | Val_fair | Val_overvalued | Val_very_overvalued

text \<open>
  The interfaces \<open>SafetyJudgment\<close>, \<open>GrowthJudgment\<close>, \<open>ProfitabilityJudgment\<close> and
  \<open>ValuationJudgment\<close> have the same six fields and differ in the type of \<open>level\<close>
  only; \<open>PSRJudgment\<close> has the additional field \<open>color\<close>. The style fields hold ASCII
  class names. The fields \<open>title\<close> and \<open>description\<close> hold Japanese text, written here
  as the list of the UTF-16 code units of the source's string literal.
\<close>

type_synonym utf16 = "nat list"

record 'l Judgment =
  level :: 'l
  borderColor :: string
  textColor :: string
  darkTextColor :: string
  title :: utf16
  description :: utf16

record PSRJudgment = "PSRLevel Judgment" +
  color :: string

type_synonym SafetyJudgment = "SafetyLevel Judgment"
type_synonym GrowthJudgment = "GrowthLevel Judgment"
type_synonym ProfitabilityJudgment = "ProfitabilityLevel Judgment"
type_synonym ValuationJudgment = "ValuationLevel Judgment"

subsection \<open>Compute functions\<close>

definition calculatePSR :: "real \<Rightarrow> real \<Rightarrow> error + real" where
  "calculatePSR marketCap revenue =
     (if revenue \<le> 0 then Inl (Error ''Revenue must be greater than 0'')
      else Inr (marketCap / revenue))"

definition calculateCurrentRatio :: "real \<Rightarrow> real \<Rightarrow> error + real" where
  "calculateCurrentRatio currentAssets currentLiabilities =
     (if currentLiabilities \<le> 0 then Inl (Error ''Current liabilities must be greater than 0'')
      else Inr ((currentAssets / currentLiabilities) * 100))"

definition calculateEquityRatio :: "real \<Rightarrow> real \<Rightarrow> error + real" where
  "calculateEquityRatio equity totalAssets =
     (if totalAssets \<le> 0 then Inl (Error ''Total assets must be greater than 0'')
      else Inr ((equity / totalAssets) * 100))"

definition calculateCapExRatio :: "real \<Rightarrow> real \<Rightarrow> error + real" where
  "calculateCapExRatio capex depreciation =
     (if depreciation \<le> 0 then Inl (Error ''Depreciation must be greater than 0'')
      else Inr (capex / depreciation))"

definition calculateRevenueGrowth :: "real \<Rightarrow> real \<Rightarrow> error + real" where
  "calculateRevenueGrowth currentRevenue pastRevenue =
     (if pastRevenue \<le> 0 then Inl (Error ''Past revenue must be greater than 0'')
      else Inr (((currentRevenue - pastRevenue) / pastRevenue) * 100))"

definition calculateROE :: "real \<Rightarrow> real \<Rightarrow> error + real" where
  "calculateROE netIncome equity =
     (if equity \<le> 0 then Inl (Error ''Equity must be greater than 0'')
      else Inr ((netIncome / equity) * 100))"

definition calculateROA :: "real \<Rightarrow> real \<Rightarrow> error + real" where
  "calculateROA netIncome totalAssets =
     (if totalAssets \<le> 0 then Inl (Error ''Total assets must be greater than 0'')
      else Inr ((netIncome / totalAssets) * 100))"

definition calculateOperatingMargin :: "real \<Rightarrow> real \<Rightarrow> error + real" where
  "calculateOperatingMargin operatingIncome revenue =
     (if revenue \<le> 0 then Inl (Error ''Revenue must be greater than 0'')
      else Inr ((operatingIncome / revenue) * 100))"

definition calculatePER :: "real \<Rightarrow> real \<Rightarrow> error + real" where
  "calculatePER marketCap netIncome =
     (if netIncome \<le> 0 then Inl (Error ''Net income must be greater than 0'')
      else Inr (marketCap / netIncome))"

definition calculatePBR :: "real \<Rightarrow> real \<Rightarrow> error + real" where
  "calculatePBR marketCap equity =
     (if equity \<le> 0 then Inl (Error ''Equity must be greater than 0'')
      else Inr (marketCap / equity))"

definition calculateDividendYield :: "real \<Rightarrow> real \<Rightarrow> error + real" where
  "calculateDividendYield annualDividend stockPrice =
     (if stockPrice \<le> 0 then Inl (Error ''Stock price must be greater than 0'')
      else Inr ((annualDividend / stockPrice) * 100))"

subsection \<open>Binary64 numbers\<close>

text \<open>
  A binary64 value is not-a-number, an infinity, a zero of either sign or a finite number.
  \<open>Fin r\<close> is the finite number \<open>r\<close>, \<open>Fin 0\<close> the positive zero and \<open>NegZero\<close> the
  negative zero. An operand \<open>Fin r\<close> may hold any real; the binary64 numbers are among
  them, and the result of an operation is always one of them.
\<close>

datatype number = NaN | PosInf | NegInf | NegZero | Fin real

text \<open>The power of two with an integer exponent.\<close>

definition pow2 :: "int \<Rightarrow> real" where
  "pow2 e = (if 0 \<le> e then 2 ^ nat e else 1 / 2 ^ nat (- e))"

text \<open>
  The binary exponent of a positive real \<open>x\<close>, the integer \<open>k\<close> with
  \<open>2^k \<le> x < 2^(k+1)\<close>, computed from the bit length of an integer.
\<close>

definition floor_log2 :: "real \<Rightarrow> int" where
  "floor_log2 x = (if 1 \<le> x then bitlen \<lfloor>x\<rfloor> - 1 else - bitlen (\<lceil>1 / x\<rceil> - 1))"

text \<open>Rounding to the nearest integer, a tie going to the even one.\<close>

definition round_half_even :: "real \<Rightarrow> int" where
  "round_half_even x =
     (let f = \<lfloor>x\<rfloor>; d = x - of_int f
      in if d < 1 / 2 then f else if 1 / 2 < d then f + 1 else if even f then f else f + 1)"

text \<open>
  Rounding a real to binary64, to nearest with ties to even. The significand has 53 bits,
  so a number with binary exponent \<open>k\<close> is rounded to a multiple of \<open>2^(k - 52)\<close>; below
  the smallest normal number \<open>2^(- 1022)\<close> the spacing stays \<open>2^(- 1074)\<close> (the subnormal
  numbers). A rounded magnitude of \<open>2^1024\<close> or more overflows to an infinity, and a
  negative real that rounds to zero gives the negative zero.
\<close>

definition round64 :: "real \<Rightarrow> number" where
  "round64 x =
     (if x = 0 then Fin 0
      else let e = max (floor_log2 \<bar>x\<bar>) (- 1022) - 52;
               m = of_int (round_half_even (\<bar>x\<bar> / pow2 e)) * pow2 e
           in if pow2 1024 \<le> m then (if 0 < x then PosInf else NegInf)
              else if 0 < x then Fin m
              else if m = 0 then NegZero
              else Fin (- m))"

fun sign_bit :: "number \<Rightarrow> bool" where
  "sign_bit NaN = False"
| "sign_bit PosInf = False"
| "sign_bit NegInf = True"
| "sign_bit NegZero = True"
| "sign_bit (Fin r) = (r < 0)"

fun is_zero :: "number \<Rightarrow> bool" where
  "is_zero NegZero = True"
| "is_zero (Fin r) = (r = 0)"
| "is_zero _ = False"

fun is_inf :: "number \<Rightarrow> bool" where
  "is_inf PosInf = True"
| "is_inf NegInf = True"
| "is_inf _ = False"

fun to_real :: "number \<Rightarrow> real" where
  "to_real (Fin r) = r"
| "to_real _ = 0"

definition signed_zero :: "bool \<Rightarrow> number" where
  "signed_zero s = (if s then NegZero else Fin 0)"

definition signed_inf :: "bool \<Rightarrow> number" where
  "signed_inf s = (if s then NegInf else PosInf)"

text \<open>
  The operators \<open>/\<close>, \<open>*\<close> and \<open>-\<close> on numbers. An operation on not-a-number, the
  quotient of two infinities or of two zeros, the product of an infinity and a zero and
  the difference of equal infinities are not-a-number. The sign of a quotient or product
  that is an infinity or a zero is negative when exactly one operand is negative. The
  difference of two zeros is the negative zero only for \<open>(- 0) - (+ 0)\<close>, and the
  difference of equal finite numbers is the positive zero.
\<close>

definition fdiv :: "number \<Rightarrow> number \<Rightarrow> number" where
  "fdiv a b =
     (if a = NaN \<or> b = NaN then NaN
      else if is_inf a then (if is_inf b then NaN else signed_inf (sign_bit a \<noteq> sign_bit b))
      else if is_inf b then signed_zero (sign_bit a \<noteq> sign_bit b)
      else if is_zero b then (if is_zero a then NaN else signed_inf (sign_bit a \<noteq> sign_bit b))
      else if is_zero a then signed_zero (sign_bit a \<noteq> sign_bit b)
      else round64 (to_real a / to_real b))"

definition fmul :: "number \<Rightarrow> number \<Rightarrow> number" where
  "fmul a b =
     (if a = NaN \<or> b = NaN then NaN
      else if is_inf a \<or> is_inf b then
        (if is_zero a \<or> is_zero b then NaN else signed_inf (sign_bit a \<noteq> sign_bit b))
      else if is_zero a \<or> is_zero b then signed_zero (sign_bit a \<noteq> sign_bit b)
      else round64 (to_real a * to_real b))"

definition fsub :: "number \<Rightarrow> number \<Rightarrow> number" where
  "fsub a b =
     (if a = NaN \<or> b = NaN then NaN
      else if is_inf a then (if a = b then NaN else a)
      else if is_inf b then signed_inf (\<not> sign_bit b)
      else if is_zero a \<and> is_zero b then signed_zero (sign_bit a \<and> \<not> sign_bit b)
      else round64 (to_real a - to_real b))"

text \<open>
  The comparisons \<open>x <= 0\<close>, \<open>x > 0\<close> and \<open>x < 0\<close>. Each is false of not-a-number, and
  the negative zero equals zero.
\<close>

fun le_zero :: "number \<Rightarrow> bool" where
  "le_zero NaN = False"
| "le_zero PosInf = False"
| "le_zero NegInf = True"
| "le_zero NegZero = True"
| "le_zero (Fin r) = (r \<le> 0)"

fun gt_zero :: "number \<Rightarrow> bool" where
  "gt_zero PosInf = True"
| "gt_zero (Fin r) = (0 < r)"
| "gt_zero _ = False"

fun lt_zero :: "number \<Rightarrow> bool" where
  "lt_zero NegInf = True"
| "lt_zero (Fin r) = (r < 0)"
| "lt_zero _ = False"

subsection \<open>Compute functions on binary64 numbers\<close>

text \<open>
  The eleven compute functions as the code runs them: the guard is the comparison of
  numbers, and each operator of the returned expression is the rounded operation.
\<close>

definition calculatePSR_f64 :: "number \<Rightarrow> number \<Rightarrow> error + number" where
  "calculatePSR_f64 marketCap revenue =
     (if le_zero revenue then Inl (Error ''Revenue must be greater than 0'')
      else Inr (fdiv marketCap revenue))"

definition calculateCurrentRatio_f64 :: "number \<Rightarrow> number \<Rightarrow> error + number" where
  "calculateCurrentRatio_f64 currentAssets currentLiabilities =
     (if le_zero currentLiabilities then Inl (Error ''Current liabilities must be greater than 0'')
      else Inr (fmul (fdiv currentAssets currentLiabilities) (Fin 100)))"

definition calculateEquityRatio_f64 :: "number \<Rightarrow> number \<Rightarrow> error + number" where
  "calculateEquityRatio_f64 equity totalAssets =
     (if le_zero totalAssets then Inl (Error ''Total assets must be greater than 0'')
      else Inr (fmul (fdiv equity totalAssets) (Fin 100)))"

definition calculateCapExRatio_f64 :: "number \<Rightarrow> number \<Rightarrow> error + number" where
  "calculateCapExRatio_f64 capex depreciation =
     (if le_zero depreciation then Inl (Error ''Depreciation must be greater than 0'')
      else Inr (fdiv capex depreciation))"

definition calculateRevenueGrowth_f64 :: "number \<Rightarrow> number \<Rightarrow> error + number" where
  "calculateRevenueGrowth_f64 currentRevenue pastRevenue =
     (if le_zero pastRevenue then Inl (Error ''Past revenue must be greater than 0'')
      else Inr (fmul (fdiv (fsub currentRevenue pastRevenue) pastRevenue) (Fin 100)))"

definition calculateROE_f64 :: "number \<Rightarrow> number \<Rightarrow> error + number" where
  "calculateROE_f64 netIncome equity =
     (if le_zero equity then Inl (Error ''Equity must be greater than 0'')
      else Inr (fmul (fdiv netIncome equity) (Fin 100)))"

definition calculateROA_f64 :: "number \<Rightarrow> number \<Rightarrow> error + number" where
  "calculateROA_f64 netIncome totalAssets =
     (if le_zero totalAssets then Inl (Error ''Total assets must be greater than 0'')
      else Inr (fmul (fdiv netIncome totalAssets) (Fin 100)))"

definition calculateOperatingMargin_f64 :: "number \<Rightarrow> number \<Rightarrow> error + number" where
  "calculateOperatingMargin_f64 operatingIncome revenue =
     (if le_zero revenue then Inl (Error ''Revenue must be greater than 0'')
      else Inr (fmul (fdiv operatingIncome revenue) (Fin 100)))"

definition calculatePER_f64 :: "number \<Rightarrow> number \<Rightarrow> error + number" where
  "calculatePER_f64 marketCap netIncome =
     (if le_zero netIncome then Inl (Error ''Net income must be greater than 0'')
      else Inr (fdiv marketCap netIncome))"

definition calculatePBR_f64 :: "number \<Rightarrow> number \<Rightarrow> error + number" where
  "calculatePBR_f64 marketCap equity =
     (if le_zero equity then Inl (Error ''Equity must be greater than 0'')
      else Inr (fdiv marketCap equity))"

definition calculateDividendYield_f64 :: "number \<Rightarrow> number \<Rightarrow> error + number" where
  "calculateDividendYield_f64 annualDividend stockPrice =
     (if le_zero stockPrice then Inl (Error ''Stock price must be greater than 0'')
      else Inr (fmul (fdiv annualDividend stockPrice) (Fin 100)))"

subsection \<open>Classify functions\<close>

text \<open>
  The comparisons of a classifier are exact on binary64 numbers, and every threshold
  literal but one is a number that binary64 holds exactly. The exception is the literal
  \<open>0.7\<close> of \<open>getCapExRatioJudgment\<close>: it denotes the binary64 number nearest to
  7/10, which is 6305039478318694 / 2^53 and lies below 7/10.
\<close>

definition binary64_0_7 :: real where
  "binary64_0_7 = 3152519739159347 / 4503599627370496"

definition getPSRJudgment :: "real \<Rightarrow> PSRJudgment" where
  "getPSRJudgment psr =
     (if psr < 1 then
       \<lparr>level = PSR_undervalued,
        borderColor = ''border-green-500'',
        textColor = ''text-green-700'',
        darkTextColor = ''dark:text-green-400'',
        title = [21106, 23433],
        description = [26178, 20385, 32207, 38989, 12364, 22770, 19978, 39640, 12434, 19979, 22238, 12387,
           12390, 12362, 12426, 12289, 24066, 22580, 12398, 26399, 24453, 20516, 12399, 25511,
           12360, 12417],
        color = ''green''\<rparr>
     else if psr < 2 then
       \<lparr>level = PSR_fair,
        borderColor = ''border-yellow-500'',
        textColor = ''text-yellow-700'',
        darkTextColor = ''dark:text-yellow-400'',
        title = [36969, 27491, 12316, 12420, 12420, 39640, 12417],
        description = [26178, 20385, 32207, 38989, 12399, 22770, 19978, 39640, 12392, 21516, 31243, 24230,
           12289, 27161, 28310, 30340, 12394, 35413, 20385],
        color = ''yellow''\<rparr>
     else if psr < 5 then
       \<lparr>level = PSR_high,
        borderColor = ''border-orange-500'',
        textColor = ''text-orange-700'',
        darkTextColor = ''dark:text-orange-400'',
        title = [39640, 25104, 38263, 26399, 24453],
        description = [24066, 22580, 12399, 23558, 26469, 12398, 25104, 38263, 12434, 35211, 36796, 12435,
           12391, 12356, 12427],
        color = ''orange''\<rparr>
     else
       \<lparr>level = PSR_very_high,
        borderColor = ''border-red-500'',
        textColor = ''text-red-700'',
        darkTextColor = ''dark:text-red-400'',
        title = [38750, 24120, 12395, 39640, 12356, 26399, 24453, 20516],
        description = [39640, 25104, 38263, 20225, 26989, 12414, 12383, 12399, 12496, 12502, 12523, 30340,
           35413, 20385, 12398, 21487, 33021, 24615],
        color = ''red''\<rparr>)"

definition getCurrentRatioJudgment :: "real \<Rightarrow> SafetyJudgment" where
  "getCurrentRatioJudgment ratio =
     (if ratio \<ge> 200 then
       \<lparr>level = Safety_excellent,
        borderColor = ''border-green-500'',
        textColor = ''text-green-700'',
        darkTextColor = ''dark:text-green-400'',
        title = [20778, 33391],
        description = [30701, 26399, 30340, 12394, 36001, 21209, 23433, 23450, 24615, 12364, 38750, 24120,
           12395, 39640, 12356]\<rparr>
     else if ratio \<ge> 150 then
       \<lparr>level = Safety_good,
        borderColor = ''border-blue-500'',
        textColor = ''text-blue-700'',
        darkTextColor = ''dark:text-blue-400'',
        title = [33391, 22909],
        description = [20107, 26989, 36939, 21942, 12395, 21313, 20998, 12394, 27969, 21205, 24615, 12364,
           12354, 12427]\<rparr>
     else if ratio \<ge> 100 then
       \<lparr>level = Safety_fair,
        borderColor = ''border-yellow-500'',
        textColor = ''text-yellow-700'',
        darkTextColor = ''dark:text-yellow-400'',
        title = [26222, 36890],
        description = [26368, 20302, 38480, 12398, 27969, 21205, 24615, 12496, 12483, 12501, 12449, 12540,
           12354, 12426]\<rparr>
     else
       \<lparr>level = Safety_warning,
        borderColor = ''border-red-500'',
        textColor = ''text-red-700'',
        darkTextColor = ''dark:text-red-400'',
        title = [35201, 27880, 24847],
        description = [27969, 21205, 36000, 20661, 12364, 27969, 21205, 36039, 29987, 12434, 19978, 22238,
           12387, 12390, 12362, 12426, 12289, 27969, 21205, 24615, 12395, 25080, 24565]\<rparr>)"

definition getEquityRatioJudgment :: "real \<Rightarrow> SafetyJudgment" where
  "getEquityRatioJudgment ratio =
     (if ratio \<ge> 50 then
       \<lparr>level = Safety_excellent,
        borderColor = ''border-green-500'',
        textColor = ''text-green-700'',
        darkTextColor = ''dark:text-green-400'',
        title = [20778, 33391],
        description = [36001, 21209, 30340, 33258, 31435, 24615, 12364, 38750, 24120, 12395, 39640, 12356]\<rparr>
     else if ratio \<ge> 40 then
       \<lparr>level = Safety_good,
        borderColor = ''border-blue-500'',
        textColor = ''text-blue-700'',
        darkTextColor = ''dark:text-blue-400'',
        title = [33391, 22909],
        description = [24375, 22266, 12394, 36001, 21209, 22522, 30436, 12434, 25345, 12388]\<rparr>
     else if ratio \<ge> 20 then
       \<lparr>level = Safety_fair,
        borderColor = ''border-yellow-500'',
        textColor = ''text-yellow-700'',
        darkTextColor = ''dark:text-yellow-400'',
        title = [26222, 36890],
        description = [20013, 31243, 24230, 12398, 36001, 21209, 23433, 23450, 24615]\<rparr>
     else
       \<lparr>level = Safety_warning,
        borderColor = ''border-red-500'',
        textColor = ''text-red-700'',
        darkTextColor = ''dark:text-red-400'',
        title = [35201, 27880, 24847],
        description = [20511, 20837, 37329, 12408, 12398, 20381, 23384, 24230, 12364, 39640, 12356]\<rparr>)"

definition getCapExRatioJudgment :: "real \<Rightarrow> GrowthJudgment" where
  "getCapExRatioJudgment ratio =
     (if ratio \<ge> 1.5 then
       \<lparr>level = Growth_strong,
        borderColor = ''border-green-500'',
        textColor = ''text-green-700'',
        darkTextColor = ''dark:text-green-400'',
        title = [31309, 26997, 25237, 36039],
        description = [25104, 38263, 12392, 36039, 29987, 26356, 26032, 12395, 31309, 26997, 30340, 12395,
           25237, 36039, 12375, 12390, 12356, 12427]\<rparr>
     else if ratio \<ge> 1.0 then
       \<lparr>level = Growth_moderate,
        borderColor = ''border-blue-500'',
        textColor = ''text-blue-700'',
        darkTextColor = ''dark:text-blue-400'',
        title = [36969, 27491, 25237, 36039],
        description = [36039, 29987, 12434, 29694, 29366, 12524, 12505, 12523, 12391, 32173, 25345, 12375,
           12390, 12356, 12427]\<rparr>
     else if ratio \<ge> binary64_0_7 then
       \<lparr>level = Growth_stable,
        borderColor = ''border-yellow-500'',
        textColor = ''text-yellow-700'',
        darkTextColor = ''dark:text-yellow-400'',
        title = [20445, 23432, 30340],
        description = [26032, 35215, 25237, 36039, 12364, 38480, 23450, 30340, 12289, 36039, 29987, 12505,
           12540, 12473, 12364, 32302, 23567, 20670, 21521, 12398, 21487, 33021, 24615]\<rparr>
     else
       \<lparr>level = Growth_declining,
        borderColor = ''border-red-500'',
        textColor = ''text-red-700'',
        darkTextColor = ''dark:text-red-400'',
        title = [25237, 36039, 19981, 36275],
        description = [36039, 29987, 12505, 12540, 12473, 12434, 32173, 25345, 12377, 12427, 12395, 12399,
           25237, 36039, 12364, 19981, 21313, 20998]\<rparr>)"

definition getRevenueGrowthJudgment :: "real \<Rightarrow> GrowthJudgment" where
  "getRevenueGrowthJudgment growthRate =
     (if growthRate \<ge> 50 then
       \<lparr>level = Growth_strong,
        borderColor = ''border-green-500'',
        textColor = ''text-green-700'',
        darkTextColor = ''dark:text-green-400'',
        title = [39640, 25104, 38263],
        description = [52, 24180, 38291, 12391, 38997, 33879, 12394, 22770, 19978, 39640, 25313, 22823]\<rparr>
     else if growthRate \<ge> 20 then
       \<lparr>level = Growth_moderate,
        borderColor = ''border-blue-500'',
        textColor = ''text-blue-700'',
        darkTextColor = ''dark:text-blue-400'',
        title = [22533, 23455, 12394, 25104, 38263],
        description = [20581, 20840, 12394, 22770, 19978, 39640, 25104, 38263, 36556, 36947]\<rparr>
     else if growthRate \<ge> 0 then
       \<lparr>level = Growth_stable,
        borderColor = ''border-yellow-500'',
        textColor = ''text-yellow-700'',
        darkTextColor = ''dark:text-yellow-400'',
        title = [23433, 23450],
        description = [22770, 19978, 39640, 12434, 32173, 25345, 12414, 12383, 12399, 24494, 22679]\<rparr>
     else
       \<lparr>level = Growth_declining,
        borderColor = ''border-red-500'',
        textColor = ''text-red-700'',
        darkTextColor = ''dark:text-red-400'',
        title = [28187, 23569, 20670, 21521],
        description = [26399, 38291, 20869, 12395, 22770, 19978, 39640, 12364, 28187, 23569]\<rparr>)"

definition getROEJudgment :: "real \<Rightarrow> ProfitabilityJudgment" where
  "getROEJudgment roe =
     (if roe \<ge> 15 then
       \<lparr>level = Prof_excellent,
        borderColor = ''border-green-500'',
        textColor = ''text-green-700'',
        darkTextColor = ''dark:text-green-400'',
        title = [20778, 33391],
        description = [26666, 20027, 36039, 26412, 12434, 38750, 24120, 12395, 21177, 29575, 30340, 12395,
           27963, 29992]\<rparr>
     else if roe \<ge> 10 then
       \<lparr>level = Prof_good,
        borderColor = ''border-blue-500'',
        textColor = ''text-blue-700'',
        darkTextColor = ''dark:text-blue-400'',
        title = [33391, 22909],
        description = [26666, 20027, 36039, 26412, 12434, 21177, 29575, 30340, 12395, 27963, 29992]\<rparr>
     else if roe \<ge> 5 then
       \<lparr>level = Prof_fair,
        borderColor = ''border-yellow-500'',
        textColor = ''text-yellow-700'',
        darkTextColor = ''dark:text-yellow-400'',
        title = [26222, 36890],
        description = [25913, 21892, 12398, 20313, 22320, 12354, 12426]\<rparr>
     else
       \<lparr>level = Prof_poor,
        borderColor = ''border-red-500'',
        textColor = ''text-red-700'',
        darkTextColor = ''dark:text-red-400'',
        title = [35201, 25913, 21892],
        description = [36039, 26412, 21177, 29575, 12364, 20302, 12356, 12289, 12414, 12383, 12399, 36196,
           23383]\<rparr>)"

definition getROAJudgment :: "real \<Rightarrow> ProfitabilityJudgment" where
  "getROAJudgment roa =
     (if roa \<ge> 10 then
       \<lparr>level = Prof_excellent,
        borderColor = ''border-green-500'',
        textColor = ''text-green-700'',
        darkTextColor = ''dark:text-green-400'',
        title = [20778, 33391],
        description = [32207, 36039, 29987, 12434, 38750, 24120, 12395, 21177, 29575, 30340, 12395, 27963,
           29992]\<rparr>
     else if roa \<ge> 5 then
       \<lparr>level = Prof_good,
        borderColor = ''border-blue-500'',
        textColor = ''text-blue-700'',
        darkTextColor = ''dark:text-blue-400'',
        title = [33391, 22909],
        description = [32207, 36039, 29987, 12434, 21177, 29575, 30340, 12395, 27963, 29992]\<rparr>
     else if roa \<ge> 2 then
       \<lparr>level = Prof_fair,
        borderColor = ''border-yellow-500'',
        textColor = ''text-yellow-700'',
        darkTextColor = ''dark:text-yellow-400'',
        title = [26222, 36890],
        description = [25913, 21892, 12398, 20313, 22320, 12354, 12426]\<rparr>
     else
       \<lparr>level = Prof_poor,
        borderColor = ''border-red-500'',
        textColor = ''text-red-700'',
        darkTextColor = ''dark:text-red-400'',
        title = [35201, 25913, 21892],
        description = [36039, 29987, 21177, 29575, 12364, 20302, 12356, 12289, 12414, 12383, 12399, 36196,
           23383]\<rparr>)"

definition getOperatingMarginJudgment :: "real \<Rightarrow> ProfitabilityJudgment" where
  "getOperatingMarginJudgment margin =
     (if margin \<ge> 20 then
       \<lparr>level = Prof_excellent,
        borderColor = ''border-green-500'',
        textColor = ''text-green-700'',
        darkTextColor = ''dark:text-green-400'',
        title = [20778, 33391],
        description = [38750, 24120, 12395, 39640, 12356, 21454, 30410, 24615]\<rparr>
     else if margin \<ge> 10 then
       \<lparr>level = Prof_good,
        borderColor = ''border-blue-500'',
        textColor = ''text-blue-700'',
        darkTextColor = ''dark:text-blue-400'',
        title = [33391, 22909],
        description = [20581, 20840, 12394, 21454, 30410, 24615]\<rparr>
     else if margin \<ge> 5 then
       \<lparr>level = Prof_fair,
        borderColor = ''border-yellow-500'',
        textColor = ''text-yellow-700'',
        darkTextColor = ''dark:text-yellow-400'',
        title = [26222, 36890],
        description = [25913, 21892, 12398, 20313, 22320, 12354, 12426]\<rparr>
     else
       \<lparr>level = Prof_poor,
        borderColor = ''border-red-500'',
        textColor = ''text-red-700'',
        darkTextColor = ''dark:text-red-400'',
        title = [35201, 25913, 21892],
        description = [21454, 30410, 24615, 12364, 20302, 12356, 12289, 12414, 12383, 12399, 36196, 23383]\<rparr>)"

definition getPERJudgment :: "real \<Rightarrow> ValuationJudgment" where
  "getPERJudgment per =
     (if per < 10 then
       \<lparr>level = Val_undervalued,
        borderColor = ''border-green-500'',
        textColor = ''text-green-700'',
        darkTextColor = ''dark:text-green-400'',
        title = [21106, 23433],
        description = [21033, 30410, 12395, 23550, 12375, 12390, 26666, 20385, 12364, 20302, 12356]\<rparr>
     else if per < 20 then
       \<lparr>level = Val_fair,
        borderColor = ''border-blue-500'',
        textColor = ''text-blue-700'',
        darkTextColor = ''dark:text-blue-400'',
        title = [36969, 27491],
        description = [27161, 28310, 30340, 12394, 26666, 20385, 27700, 28310]\<rparr>
     else if per < 30 then
       \<lparr>level = Val_overvalued,
        borderColor = ''border-yellow-500'',
        textColor = ''text-yellow-700'',
        darkTextColor = ''dark:text-yellow-400'',
        title = [12420, 12420, 21106, 39640],
        description = [25104, 38263, 26399, 24453, 12364, 32340, 12426, 36796, 12414, 12428, 12390, 12356,
           12427]\<rparr>
     else
       \<lparr>level = Val_very_overvalued,
        borderColor = ''border-red-500'',
        textColor = ''text-red-700'',
        darkTextColor = ''dark:text-red-400'',
        title = [21106, 39640],
        description = [39640, 12356, 25104, 38263, 26399, 24453, 12289, 12414, 12383, 12399, 12496, 12502,
           12523, 30340]\<rparr>)"

definition getPBRJudgment :: "real \<Rightarrow> ValuationJudgment" where
  "getPBRJudgment pbr =
     (if pbr < 1 then
       \<lparr>level = Val_undervalued,
        borderColor = ''border-green-500'',
        textColor = ''text-green-700'',
        darkTextColor = ''dark:text-green-400'',
        title = [21106, 23433],
        description = [35299, 25955, 20385, 20516, 12434, 19979, 22238, 12427, 26666, 20385]\<rparr>
     else if pbr < 2 then
       \<lparr>level = Val_fair,
        borderColor = ''border-blue-500'',
        textColor = ''text-blue-700'',
        darkTextColor = ''dark:text-blue-400'',
        title = [36969, 27491],
        description = [27161, 28310, 30340, 12394, 26666, 20385, 27700, 28310]\<rparr>
     else if pbr < 3 then
       \<lparr>level = Val_overvalued,
        borderColor = ''border-yellow-500'',
        textColor = ''text-yellow-700'',
        darkTextColor = ''dark:text-yellow-400'',
        title = [12420, 12420, 21106, 39640],
        description = [25104, 38263, 26399, 24453, 12364, 32340, 12426, 36796, 12414, 12428, 12390, 12356,
           12427]\<rparr>
     else
       \<lparr>level = Val_very_overvalued,
        borderColor = ''border-red-500'',
        textColor = ''text-red-700'',
        darkTextColor = ''dark:text-red-400'',
        title = [21106, 39640],
        description = [39640, 12356, 25104, 38263, 26399, 24453, 12289, 12414, 12383, 12399, 12496, 12502,
           12523, 30340]\<rparr>)"

definition getDividendYieldJudgment :: "real \<Rightarrow> ValuationJudgment" where
  "getDividendYieldJudgment yieldPercent =
     (if yieldPercent \<ge> 4 then
       \<lparr>level = Val_undervalued,
        borderColor = ''border-green-500'',
        textColor = ''text-green-700'',
        darkTextColor = ''dark:text-green-400'',
        title = [39640, 37197, 24403],
        description = [12452, 12531, 12459, 12512, 12466, 12452, 12531, 37325, 35222, 12398, 25237, 36039,
           23478, 21521, 12369]\<rparr>
     else if yieldPercent \<ge> 2 then
       \<lparr>level = Val_fair,
        borderColor = ''border-blue-500'',
        textColor = ''text-blue-700'',
        darkTextColor = ''dark:text-blue-400'',
        title = [27161, 28310, 30340],
        description = [24179, 22343, 30340, 12394, 37197, 24403, 27700, 28310]\<rparr>
     else if yieldPercent \<ge> 1 then
       \<lparr>level = Val_overvalued,
        borderColor = ''border-yellow-500'',
        textColor = ''text-yellow-700'',
        darkTextColor = ''dark:text-yellow-400'',
        title = [20302, 37197, 24403],
        description = [25104, 38263, 12408, 12398, 20877, 25237, 36039, 37325, 35222]\<rparr>
     else
       \<lparr>level = Val_very_overvalued,
        borderColor = ''border-red-500'',
        textColor = ''text-red-700'',
        darkTextColor = ''dark:text-red-400'',
        title = [28961, 37197, 24403, 30340],
        description = [37197, 24403, 12434, 12411, 12412, 20986, 12375, 12390, 12356, 12394, 12356]\<rparr>)"

subsection \<open>Threshold tables of the specification\<close>

text \<open>
  The specification gives each classifier as an ordered table of thresholds, tried from
  the first row on, the first row that matches giving the level, and a ratio that matches
  no row falling to the last level. \<open>first_lt\<close> is that rule for the tables whose rows
  test \<open>ratio < threshold\<close>, \<open>first_ge\<close> the one for the rows \<open>ratio \<ge> threshold\<close>.
\<close>

fun first_lt :: "(real \<times> 'l) list \<Rightarrow> 'l \<Rightarrow> real \<Rightarrow> 'l" where
  "first_lt [] d r = d"
| "first_lt ((t, l) # rows) d r = (if r < t then l else first_lt rows d r)"

fun first_ge :: "(real \<times> 'l) list \<Rightarrow> 'l \<Rightarrow> real \<Rightarrow> 'l" where
  "first_ge [] d r = d"
| "first_ge ((t, l) # rows) d r = (if r \<ge> t then l else first_ge rows d r)"

text \<open>
  The position of a level in its union type, the most favourable level first.
\<close>

fun PSRLevel_rank :: "PSRLevel \<Rightarrow> nat" where
  "PSRLevel_rank PSR_undervalued = 0"
| "PSRLevel_rank PSR_fair = 1"
| "PSRLevel_rank PSR_high = 2"
| "PSRLevel_rank PSR_very_high = 3"

fun SafetyLevel_rank :: "SafetyLevel \<Rightarrow> nat" where
  "SafetyLevel_rank Safety_excellent = 0"
| "SafetyLevel_rank Safety_good = 1"
| "SafetyLevel_rank Safety_fair = 2"
| "SafetyLevel_rank Safety_warning = 3"

fun GrowthLevel_rank :: "GrowthLevel \<Rightarrow> nat" where
  "GrowthLevel_rank Growth_strong = 0"
| "GrowthLevel_rank Growth_moderate = 1"
| "GrowthLevel_rank Growth_stable = 2"
| "GrowthLevel_rank Growth_declining = 3"

fun ProfitabilityLevel_rank :: "ProfitabilityLevel \<Rightarrow> nat" where
  "ProfitabilityLevel_rank Prof_excellent = 0"
| "ProfitabilityLevel_rank Prof_good = 1"
| "ProfitabilityLevel_rank Prof_fair = 2"
| "ProfitabilityLevel_rank Prof_poor = 3"

fun ValuationLevel_rank :: "ValuationLevel \<Rightarrow> nat" where
  "ValuationLevel_rank Val_undervalued = 0"
| "ValuationLevel_rank Val_fair = 1"
| "ValuationLevel_rank Val_overvalued = 2"
| "ValuationLevel_rank Val_very_overvalued = 3"

text \<open>
  The band of ratios of each level, as an interval of the real line. Consecutive bands
  meet at a threshold, which belongs to the band above it.
\<close>

definition PSR_band :: "PSRLevel \<Rightarrow> real set" where
  "PSR_band l =
     (case l of PSR_undervalued \<Rightarrow> {..<1}
      | PSR_fair \<Rightarrow> {1..<2}
      | PSR_high \<Rightarrow> {2..<5}
      | PSR_very_high \<Rightarrow> {5..})"

definition CurrentRatio_band :: "SafetyLevel \<Rightarrow> real set" where
  "CurrentRatio_band l =
     (case l of Safety_excellent \<Rightarrow> {200..}
      | Safety_good \<Rightarrow> {150..<200}
      | Safety_fair \<Rightarrow> {100..<150}
      | Safety_warning \<Rightarrow> {..<100})"

definition EquityRatio_band :: "SafetyLevel \<Rightarrow> real set" where
  "EquityRatio_band l =
     (case l of Safety_excellent \<Rightarrow> {50..}
      | Safety_good \<Rightarrow> {40..<50}
      | Safety_fair \<Rightarrow> {20..<40}
      | Safety_warning \<Rightarrow> {..<20})"

definition CapExRatio_band :: "GrowthLevel \<Rightarrow> real set" where
  "CapExRatio_band l =
     (case l of Growth_strong \<Rightarrow> {1.5..}
      | Growth_moderate \<Rightarrow> {1.0..<1.5}
      | Growth_stable \<Rightarrow> {binary64_0_7..<1.0}
      | Growth_declining \<Rightarrow> {..<binary64_0_7})"

definition RevenueGrowth_band :: "GrowthLevel \<Rightarrow> real set" where
  "RevenueGrowth_band l =
     (case l of Growth_strong \<Rightarrow> {50..}
      | Growth_moderate \<Rightarrow> {20..<50}
      | Growth_stable \<Rightarrow> {0..<20}
      | Growth_declining \<Rightarrow> {..<0})"

definition ROE_band :: "ProfitabilityLevel \<Rightarrow> real set" where
  "ROE_band l =
     (case l of Prof_excellent \<Rightarrow> {15..}
      | Prof_good \<Rightarrow> {10..<15}
      | Prof_fair \<Rightarrow> {5..<10}
      | Prof_poor \<Rightarrow> {..<5})"

definition ROA_band :: "ProfitabilityLevel \<Rightarrow> real set" where
  "ROA_band l =
     (case l of Prof_excellent \<Rightarrow> {10..}
      | Prof_good \<Rightarrow> {5..<10}
      | Prof_fair \<Rightarrow> {2..<5}
      | Prof_poor \<Rightarrow> {..<2})"

definition OperatingMargin_band :: "ProfitabilityLevel \<Rightarrow> real set" where
  "OperatingMargin_band l =
     (case l of Prof_excellent \<Rightarrow> {20..}
      | Prof_good \<Rightarrow> {10..<20}
      | Prof_fair \<Rightarrow> {5..<10}
      | Prof_poor \<Rightarrow> {..<5})"

definition PER_band :: "ValuationLevel \<Rightarrow> real set" where
  "PER_band l =
     (case l of Val_undervalued \<Rightarrow> {..<10}
      | Val_fair \<Rightarrow> {10..<20}
      | Val_overvalued \<Rightarrow> {20..<30}
      | Val_very_overvalued \<Rightarrow> {30..})"

definition PBR_band :: "ValuationLevel \<Rightarrow> real set" where
  "PBR_band l =
     (case l of Val_undervalued \<Rightarrow> {..<1}
      | Val_fair \<Rightarrow> {1..<2}
      | Val_overvalued \<Rightarrow> {2..<3}
      | Val_very_overvalued \<Rightarrow> {3..})"

definition DividendYield_band :: "ValuationLevel \<Rightarrow> real set" where
  "DividendYield_band l =
     (case l of Val_undervalued \<Rightarrow> {4..}
      | Val_fair \<Rightarrow> {2..<4}
      | Val_overvalued \<Rightarrow> {1..<2}
      | Val_very_overvalued \<Rightarrow> {..<1})"

section \<open>The level a classifier returns\<close>

text \<open>
  The level field of each classifier's result, read off the branches of its definition:
  it is the first-match rule on the classifier's threshold table.
\<close>

lemma getPSRJudgment_level:
  "level (getPSRJudgment r) =
     first_lt [(1, PSR_undervalued), (2, PSR_fair), (5, PSR_high)] PSR_very_high r"
  by (simp add: getPSRJudgment_def)

lemma getCurrentRatioJudgment_level:
  "level (getCurrentRatioJudgment r) =
     first_ge [(200, Safety_excellent), (150, Safety_good), (100, Safety_fair)] Safety_warning r"
  by (simp add: getCurrentRatioJudgment_def)

lemma getEquityRatioJudgment_level:
  "level (getEquityRatioJudgment r) =
     first_ge [(50, Safety_excellent), (40, Safety_good), (20, Safety_fair)] Safety_warning r"
  by (simp add: getEquityRatioJudgment_def)

lemma getCapExRatioJudgment_level:
  "level (getCapExRatioJudgment r) =
     first_ge [(1.5, Growth_strong), (1.0, Growth_moderate), (binary64_0_7, Growth_stable)]
          Growth_declining r"
  by (simp add: getCapExRatioJudgment_def)

lemma getRevenueGrowthJudgment_level:
  "level (getRevenueGrowthJudgment r) =
     first_ge [(50, Growth_strong), (20, Growth_moderate), (0, Growth_stable)] Growth_declining r"
  by (simp add: getRevenueGrowthJudgment_def)

lemma getROEJudgment_level:
  "level (getROEJudgment r) =
     first_ge [(15, Prof_excellent), (10, Prof_good), (5, Prof_fair)] Prof_poor r"
  by (simp add: getROEJudgment_def)

lemma getROAJudgment_level:
  "level (getROAJudgment r) =
     first_ge [(10, Prof_excellent), (5, Prof_good), (2, Prof_fair)] Prof_poor r"
  by (simp add: getROAJudgment_def)

lemma getOperatingMarginJudgment_level:
  "level (getOperatingMarginJudgment r) =
     first_ge [(20, Prof_excellent), (10, Prof_good), (5, Prof_fair)] Prof_poor r"
  by (simp add: getOperatingMarginJudgment_def)

lemma getPERJudgment_level:
  "level (getPERJudgment r) =
     first_lt [(10, Val_undervalued), (20, Val_fair), (30, Val_overvalued)] Val_very_overvalued r"
  by (simp add: getPERJudgment_def)

lemma getPBRJudgment_level:
  "level (getPBRJudgment r) =
     first_lt [(1, Val_undervalued), (2, Val_fair), (3, Val_overvalued)] Val_very_overvalued r"
  by (simp add: getPBRJudgment_def)

lemma getDividendYieldJudgment_level:
  "level (getDividendYieldJudgment r) =
     first_ge [(4, Val_undervalued), (2, Val_fair), (1, Val_overvalued)] Val_very_overvalued r"
  by (simp add: getDividendYieldJudgment_def)

section \<open>Bands\<close>

lemma getPSRJudgment_in_band: "level (getPSRJudgment r) = l \<longleftrightarrow> r \<in> PSR_band l"
  by (cases l) (auto simp add: getPSRJudgment_level PSR_band_def)

lemma PSR_band_unique: "\<exists>!l. r \<in> PSR_band l"
  by (simp add: getPSRJudgment_in_band [symmetric])

lemma getCurrentRatioJudgment_in_band: "level (getCurrentRatioJudgment r) = l \<longleftrightarrow> r \<in> CurrentRatio_band l"
  by (cases l) (auto simp add: getCurrentRatioJudgment_level CurrentRatio_band_def)

lemma CurrentRatio_band_unique: "\<exists>!l. r \<in> CurrentRatio_band l"
  by (simp add: getCurrentRatioJudgment_in_band [symmetric])

lemma getEquityRatioJudgment_in_band: "level (getEquityRatioJudgment r) = l \<longleftrightarrow> r \<in> EquityRatio_band l"
  by (cases l) (auto simp add: getEquityRatioJudgment_level EquityRatio_band_def)

lemma EquityRatio_band_unique: "\<exists>!l. r \<in> EquityRatio_band l"
  by (simp add: getEquityRatioJudgment_in_band [symmetric])

lemma getCapExRatioJudgment_in_band: "level (getCapExRatioJudgment r) = l \<longleftrightarrow> r \<in> CapExRatio_band l"
  by (cases l) (auto simp add: getCapExRatioJudgment_level CapExRatio_band_def binary64_0_7_def)

lemma CapExRatio_band_unique: "\<exists>!l. r \<in> CapExRatio_band l"
  by (simp add: getCapExRatioJudgment_in_band [symmetric])

lemma getRevenueGrowthJudgment_in_band: "level (getRevenueGrowthJudgment r) = l \<longleftrightarrow> r \<in> RevenueGrowth_band l"
  by (cases l) (auto simp add: getRevenueGrowthJudgment_level RevenueGrowth_band_def)

lemma RevenueGrowth_band_unique: "\<exists>!l. r \<in> RevenueGrowth_band l"
  by (simp add: getRevenueGrowthJudgment_in_band [symmetric])

lemma getROEJudgment_in_band: "level (getROEJudgment r) = l \<longleftrightarrow> r \<in> ROE_band l"
  by (cases l) (auto simp add: getROEJudgment_level ROE_band_def)

lemma ROE_band_unique: "\<exists>!l. r \<in> ROE_band l"
  by (simp add: getROEJudgment_in_band [symmetric])

lemma getROAJudgment_in_band: "level (getROAJudgment r) = l \<longleftrightarrow> r \<in> ROA_band l"
  by (cases l) (auto simp add: getROAJudgment_level ROA_band_def)

lemma ROA_band_unique: "\<exists>!l. r \<in> ROA_band l"
  by (simp add: getROAJudgment_in_band [symmetric])

lemma getOperatingMarginJudgment_in_band: "level (getOperatingMarginJudgment r) = l \<longleftrightarrow> r \<in> OperatingMargin_band l"
  by (cases l) (auto simp add: getOperatingMarginJudgment_level OperatingMargin_band_def)

lemma OperatingMargin_band_unique: "\<exists>!l. r \<in> OperatingMargin_band l"
  by (simp add: getOperatingMarginJudgment_in_band [symmetric])

lemma getPERJudgment_in_band: "level (getPERJudgment r) = l \<longleftrightarrow> r \<in> PER_band l"
  by (cases l) (auto simp add: getPERJudgment_level PER_band_def)

lemma PER_band_unique: "\<exists>!l. r \<in> PER_band l"
  by (simp add: getPERJudgment_in_band [symmetric])

lemma getPBRJudgment_in_band: "level (getPBRJudgment r) = l \<longleftrightarrow> r \<in> PBR_band l"
  by (cases l) (auto simp add: getPBRJudgment_level PBR_band_def)

lemma PBR_band_unique: "\<exists>!l. r \<in> PBR_band l"
  by (simp add: getPBRJudgment_in_band [symmetric])

lemma getDividendYieldJudgment_in_band: "level (getDividendYieldJudgment r) = l \<longleftrightarrow> r \<in> DividendYield_band l"
  by (cases l) (auto simp add: getDividendYieldJudgment_level DividendYield_band_def)

lemma DividendYield_band_unique: "\<exists>!l. r \<in> DividendYield_band l"
  by (simp add: getDividendYieldJudgment_in_band [symmetric])

section \<open>Monotonicity of the levels\<close>

lemma getPSRJudgment_mono:
  "x \<le> y \<Longrightarrow> PSRLevel_rank (level (getPSRJudgment x)) \<le> PSRLevel_rank (level (getPSRJudgment y))"
  by (simp add: getPSRJudgment_level)

lemma getCurrentRatioJudgment_mono:
  "x \<le> y \<Longrightarrow> SafetyLevel_rank (level (getCurrentRatioJudgment y)) \<le> SafetyLevel_rank (level (getCurrentRatioJudgment x))"
  by (simp add: getCurrentRatioJudgment_level)

lemma getEquityRatioJudgment_mono:
  "x \<le> y \<Longrightarrow> SafetyLevel_rank (level (getEquityRatioJudgment y)) \<le> SafetyLevel_rank (level (getEquityRatioJudgment x))"
  by (simp add: getEquityRatioJudgment_level)

lemma getCapExRatioJudgment_mono:
  "x \<le> y \<Longrightarrow> GrowthLevel_rank (level (getCapExRatioJudgment y)) \<le> GrowthLevel_rank (level (getCapExRatioJudgment x))"
  by (simp add: getCapExRatioJudgment_level binary64_0_7_def)

lemma getRevenueGrowthJudgment_mono:
  "x \<le> y \<Longrightarrow> GrowthLevel_rank (level (getRevenueGrowthJudgment y)) \<le> GrowthLevel_rank (level (getRevenueGrowthJudgment x))"
  by (simp add: getRevenueGrowthJudgment_level)

lemma getROEJudgment_mono:
  "x \<le> y \<Longrightarrow> ProfitabilityLevel_rank (level (getROEJudgment y)) \<le> ProfitabilityLevel_rank (level (getROEJudgment x))"
  by (simp add: getROEJudgment_level)

lemma getROAJudgment_mono:
  "x \<le> y \<Longrightarrow> ProfitabilityLevel_rank (level (getROAJudgment y)) \<le> ProfitabilityLevel_rank (level (getROAJudgment x))"
  by (simp add: getROAJudgment_level)

lemma getOperatingMarginJudgment_mono:
  "x \<le> y \<Longrightarrow> ProfitabilityLevel_rank (level (getOperatingMarginJudgment y)) \<le> ProfitabilityLevel_rank (level (getOperatingMarginJudgment x))"
  by (simp add: getOperatingMarginJudgment_level)

lemma getPERJudgment_mono:
  "x \<le> y \<Longrightarrow> ValuationLevel_rank (level (getPERJudgment x)) \<le> ValuationLevel_rank (level (getPERJudgment y))"
  by (simp add: getPERJudgment_level)

lemma getPBRJudgment_mono:
  "x \<le> y \<Longrightarrow> ValuationLevel_rank (level (getPBRJudgment x)) \<le> ValuationLevel_rank (level (getPBRJudgment y))"
  by (simp add: getPBRJudgment_level)

lemma getDividendYieldJudgment_mono:
  "x \<le> y \<Longrightarrow> ValuationLevel_rank (level (getDividendYieldJudgment y)) \<le> ValuationLevel_rank (level (getDividendYieldJudgment x))"
  by (simp add: getDividendYieldJudgment_level)

section \<open>Facts about the compute functions\<close>

lemmas calculate_defs =
  calculatePSR_def
  calculateCurrentRatio_def
  calculateEquityRatio_def
  calculateCapExRatio_def
  calculateRevenueGrowth_def
  calculateROE_def
  calculateROA_def
  calculateOperatingMargin_def
  calculatePER_def
  calculatePBR_def
  calculateDividendYield_def

lemma scaled_denominator: "0 < k \<Longrightarrow> k * b \<le> 0 \<longleftrightarrow> b \<le> (0::real)"
  by (simp add: mult_le_0_iff)

lemma scaled_growth: "0 < k \<Longrightarrow> (k * a - k * b) / (k * b) = (a - b) / (b::real)"
  by (simp add: right_diff_distrib [symmetric])

section \<open>Facts about binary64 rounding\<close>

lemmas calculate_f64_defs =
  calculatePSR_f64_def
  calculateCurrentRatio_f64_def
  calculateEquityRatio_f64_def
  calculateCapExRatio_f64_def
  calculateRevenueGrowth_f64_def
  calculateROE_f64_def
  calculateROA_f64_def
  calculateOperatingMargin_f64_def
  calculatePER_f64_def
  calculatePBR_f64_def
  calculateDividendYield_f64_def

lemma pow2_pos: "0 < pow2 e"
  by (simp add: pow2_def)

lemma pow2_powr: "pow2 e = 2 powr (of_int e)"
  by (simp add: pow2_def powr_real_of_int inverse_eq_divide)

lemma pow2_nat: "0 \<le> k \<Longrightarrow> pow2 k = of_int (2 ^ nat k)"
  by (simp add: pow2_def)

lemma pow2_neg: "0 \<le> k \<Longrightarrow> pow2 (- k) = 1 / of_int (2 ^ nat k)"
  by (simp add: pow2_def)

lemma floor_log_pow2: "0 < x \<Longrightarrow> \<lfloor>log 2 x\<rfloor> = k \<longleftrightarrow> pow2 k \<le> x \<and> x < pow2 (k + 1)"
  using floor_log_eq_powr_iff [of x 2 k] by (simp add: pow2_powr)

lemma floor_log2_ge1:
  assumes "1 \<le> x"
  shows "bitlen \<lfloor>x\<rfloor> - 1 = \<lfloor>log 2 x\<rfloor>"
proof -
  define k where "k = \<lfloor>log 2 x\<rfloor>"
  from assms have xpos: "0 < x" by simp
  from assms have fpos: "0 < \<lfloor>x\<rfloor>" by simp
  have "0 \<le> log 2 x" using assms by simp
  then have k0: "0 \<le> k" by (simp add: k_def)
  have b: "pow2 k \<le> x \<and> x < pow2 (k + 1)"
    using floor_log_pow2 [of x k] xpos by (simp add: k_def)
  then have "of_int (2 ^ nat k) \<le> x"
    using k0 by (simp add: pow2_nat)
  then have "2 ^ nat k \<le> \<lfloor>x\<rfloor>"
    by (simp only: le_floor_iff)
  then have "real_of_int (2 ^ nat k) \<le> real_of_int \<lfloor>x\<rfloor>"
    by (simp only: of_int_le_iff)
  then have lo: "pow2 k \<le> real_of_int \<lfloor>x\<rfloor>"
    using k0 by (simp add: pow2_nat)
  have hi: "real_of_int \<lfloor>x\<rfloor> < pow2 (k + 1)"
    using b of_int_floor_le [of x] by linarith
  from lo hi have "\<lfloor>log 2 (real_of_int \<lfloor>x\<rfloor>)\<rfloor> = k"
    using floor_log_pow2 [of "real_of_int \<lfloor>x\<rfloor>" k] fpos by simp
  then show ?thesis
    using fpos by (simp add: bitlen_alt_def k_def)
qed

lemma floor_log2_lt1:
  assumes "0 < x" "x < 1"
  shows "- bitlen (\<lceil>1 / x\<rceil> - 1) = \<lfloor>log 2 x\<rfloor>"
proof -
  define n where "n = \<lceil>1 / x\<rceil> - 1"
  define j where "j = bitlen n"
  have y1: "1 < 1 / x" using assms by simp
  then have "1 < \<lceil>1 / x\<rceil>" by (simp add: less_ceiling_iff)
  then have npos: "0 < n" by (simp add: n_def)
  then have jpos: "0 < j" using bitlen_eq_zero_iff [of n] bitlen_nonneg [of n] by (simp add: j_def)
  have bb: "2 ^ nat (j - 1) \<le> n \<and> n < 2 ^ nat j"
    using bitlen_bounds [OF npos] by (simp add: j_def)
  have n_lt: "real_of_int n < 1 / x"
    using ceiling_correct [of "1 / x"] by (simp add: n_def)
  have n_ge: "1 / x \<le> real_of_int n + 1"
    using ceiling_correct [of "1 / x"] by (simp add: n_def)
  from bb have "n + 1 \<le> 2 ^ nat j" by simp
  then have "real_of_int (n + 1) \<le> real_of_int (2 ^ nat j)"
    by (simp only: of_int_le_iff)
  with n_ge have up: "1 / x \<le> real_of_int (2 ^ nat j)" by linarith
  from bb have "real_of_int (2 ^ nat (j - 1)) \<le> real_of_int n"
    by (simp only: of_int_le_iff)
  with n_lt have low: "real_of_int (2 ^ nat (j - 1)) < 1 / x" by linarith
  have p1: "0 < real_of_int (2 ^ nat j)" by simp
  have p2: "0 < real_of_int (2 ^ nat (j - 1))" by simp
  have "1 / real_of_int (2 ^ nat j) \<le> x"
    using up p1 assms(1) by (simp add: field_simps)
  then have lo: "pow2 (- j) \<le> x"
    using jpos pow2_neg [of j] by simp
  have "x < 1 / real_of_int (2 ^ nat (j - 1))"
    using low p2 assms(1) by (simp add: field_simps)
  then have hi: "x < pow2 (- j + 1)"
    using jpos pow2_neg [of "j - 1"] by simp
  from lo hi have "\<lfloor>log 2 x\<rfloor> = - j"
    using floor_log_pow2 [of x "- j"] assms(1) by simp
  then show ?thesis
    by (simp add: j_def n_def)
qed

lemma floor_log2_log: "0 < x \<Longrightarrow> floor_log2 x = \<lfloor>log 2 x\<rfloor>"
  using floor_log2_ge1 floor_log2_lt1 by (simp add: floor_log2_def)

lemma floor_log2_eq: "pow2 k \<le> x \<Longrightarrow> x < pow2 (k + 1) \<Longrightarrow> floor_log2 x = k"
proof -
  assume a: "pow2 k \<le> x" "x < pow2 (k + 1)"
  then have "0 < x" using pow2_pos [of k] by linarith
  then show ?thesis
    using a floor_log_eq_powr_iff [of x 2 k] by (simp add: floor_log2_log pow2_powr)
qed


lemma round64_eval:
  assumes "x \<noteq> 0" and "pow2 k \<le> \<bar>x\<bar>" and "\<bar>x\<bar> < pow2 (k + 1)"
  shows "round64 x =
     (let e = max k (- 1022) - 52;
          m = of_int (round_half_even (\<bar>x\<bar> / pow2 e)) * pow2 e
      in if pow2 1024 \<le> m then (if 0 < x then PosInf else NegInf)
         else if 0 < x then Fin m
         else if m = 0 then NegZero
         else Fin (- m))"
  using assms by (simp add: round64_def floor_log2_eq [of k "\<bar>x\<bar>"])


lemma gt_zero_not_le_zero: "gt_zero b \<Longrightarrow> \<not> le_zero b"
  by (cases b) simp_all

lemma round_half_even_nonneg: "0 \<le> x \<Longrightarrow> 0 \<le> round_half_even x"
  by (simp add: round_half_even_def Let_def)

lemma round64_negative: "x < 0 \<Longrightarrow> lt_zero (round64 x) \<or> round64 x = NegZero"
proof -
  assume neg: "x < 0"
  define e where "e = max (floor_log2 \<bar>x\<bar>) (- 1022) - 52"
  define m where "m = real_of_int (round_half_even (\<bar>x\<bar> / pow2 e)) * pow2 e"
  have "0 \<le> \<bar>x\<bar> / pow2 e"
    using pow2_pos [of e] by simp
  then have "0 \<le> round_half_even (\<bar>x\<bar> / pow2 e)"
    by (rule round_half_even_nonneg)
  then have m0: "0 \<le> m"
    using pow2_pos [of e] by (simp add: m_def)
  have "round64 x = (if pow2 1024 \<le> m then NegInf else if m = 0 then NegZero else Fin (- m))"
    using neg by (simp add: round64_def Let_def e_def m_def)
  with m0 show ?thesis
    by auto
qed

lemma fmul_100_sign:
  "lt_zero r \<or> r = NegZero \<Longrightarrow> lt_zero (fmul r (Fin 100)) \<or> fmul r (Fin 100) = NegZero"
  using round64_negative [of "to_real r * 100"]
  by (cases r) (auto simp add: fmul_def signed_inf_def signed_zero_def)

lemma fdiv_positive_sign:
  "lt_zero r \<or> r = NegZero \<Longrightarrow> 0 < y \<Longrightarrow>
     lt_zero (fdiv r (Fin y)) \<or> fdiv r (Fin y) = NegZero"
  using round64_negative [of "to_real r / y"]
  by (cases r) (auto simp add: fdiv_def signed_inf_def signed_zero_def divide_neg_pos)

lemma fsub_negative_sign:
  "x < 0 \<Longrightarrow> 0 < y \<Longrightarrow> lt_zero (fsub (Fin x) (Fin y)) \<or> fsub (Fin x) (Fin y) = NegZero"
  using round64_negative [of "x - y"]
  by (auto simp add: fsub_def)

text \<open>
  On finite operands with a positive second one, the quotient and the difference are the
  exact result, rounded.
\<close>

lemma fdiv_finite: "0 < y \<Longrightarrow> fdiv (Fin x) (Fin y) = round64 (x / y)"
  by (simp add: fdiv_def signed_zero_def round64_def)

lemma fsub_finite: "0 < y \<Longrightarrow> fsub (Fin x) (Fin y) = round64 (x - y)"
  by (simp add: fsub_def)

text \<open>
  The sign of the three expressions the compute functions return, for a negative first
  operand and a positive second one.
\<close>

lemma ratio_sign:
  "x < 0 \<Longrightarrow> 0 < y \<Longrightarrow>
     lt_zero (fdiv (Fin x) (Fin y)) \<or> fdiv (Fin x) (Fin y) = NegZero"
  by (rule fdiv_positive_sign) simp_all

lemma percentage_sign:
  "x < 0 \<Longrightarrow> 0 < y \<Longrightarrow>
     lt_zero (fmul (fdiv (Fin x) (Fin y)) (Fin 100))
     \<or> fmul (fdiv (Fin x) (Fin y)) (Fin 100) = NegZero"
  by (rule fmul_100_sign) (rule ratio_sign)

lemma growth_sign:
  "x < 0 \<Longrightarrow> 0 < y \<Longrightarrow>
     lt_zero (fmul (fdiv (fsub (Fin x) (Fin y)) (Fin y)) (Fin 100))
     \<or> fmul (fdiv (fsub (Fin x) (Fin y)) (Fin y)) (Fin 100) = NegZero"
  by (rule fmul_100_sign) (rule fdiv_positive_sign, rule fsub_negative_sign)

lemma calculatePSR_f64_sign:
  "x < 0 \<Longrightarrow> 0 < y \<Longrightarrow>
     \<exists>r. calculatePSR_f64 (Fin x) (Fin y) = Inr r \<and> (lt_zero r \<or> r = NegZero)"
  using ratio_sign [of x y] by (simp add: calculatePSR_f64_def)

lemma calculateCurrentRatio_f64_sign:
  "x < 0 \<Longrightarrow> 0 < y \<Longrightarrow>
     \<exists>r. calculateCurrentRatio_f64 (Fin x) (Fin y) = Inr r \<and> (lt_zero r \<or> r = NegZero)"
  using percentage_sign [of x y] by (simp add: calculateCurrentRatio_f64_def)

lemma calculateEquityRatio_f64_sign:
  "x < 0 \<Longrightarrow> 0 < y \<Longrightarrow>
     \<exists>r. calculateEquityRatio_f64 (Fin x) (Fin y) = Inr r \<and> (lt_zero r \<or> r = NegZero)"
  using percentage_sign [of x y] by (simp add: calculateEquityRatio_f64_def)

lemma calculateCapExRatio_f64_sign:
  "x < 0 \<Longrightarrow> 0 < y \<Longrightarrow>
     \<exists>r. calculateCapExRatio_f64 (Fin x) (Fin y) = Inr r \<and> (lt_zero r \<or> r = NegZero)"
  using ratio_sign [of x y] by (simp add: calculateCapExRatio_f64_def)

lemma calculateRevenueGrowth_f64_sign:
  "x < 0 \<Longrightarrow> 0 < y \<Longrightarrow>
     \<exists>r. calculateRevenueGrowth_f64 (Fin x) (Fin y) = Inr r \<and> (lt_zero r \<or> r = NegZero)"
  using growth_sign [of x y] by (simp add: calculateRevenueGrowth_f64_def)

lemma calculateROE_f64_sign:
  "x < 0 \<Longrightarrow> 0 < y \<Longrightarrow>
     \<exists>r. calculateROE_f64 (Fin x) (Fin y) = Inr r \<and> (lt_zero r \<or> r = NegZero)"
  using percentage_sign [of x y] by (simp add: calculateROE_f64_def)

lemma calculateROA_f64_sign:
  "x < 0 \<Longrightarrow> 0 < y \<Longrightarrow>
     \<exists>r. calculateROA_f64 (Fin x) (Fin y) = Inr r \<and> (lt_zero r \<or> r = NegZero)"
  using percentage_sign [of x y] by (simp add: calculateROA_f64_def)

lemma calculateOperatingMargin_f64_sign:
  "x < 0 \<Longrightarrow> 0 < y \<Longrightarrow>
     \<exists>r. calculateOperatingMargin_f64 (Fin x) (Fin y) = Inr r \<and> (lt_zero r \<or> r = NegZero)"
  using percentage_sign [of x y] by (simp add: calculateOperatingMargin_f64_def)

lemma calculatePER_f64_sign:
  "x < 0 \<Longrightarrow> 0 < y \<Longrightarrow>
     \<exists>r. calculatePER_f64 (Fin x) (Fin y) = Inr r \<and> (lt_zero r \<or> r = NegZero)"
  using ratio_sign [of x y] by (simp add: calculatePER_f64_def)

lemma calculatePBR_f64_sign:
  "x < 0 \<Longrightarrow> 0 < y \<Longrightarrow>
     \<exists>r. calculatePBR_f64 (Fin x) (Fin y) = Inr r \<and> (lt_zero r \<or> r = NegZero)"
  using ratio_sign [of x y] by (simp add: calculatePBR_f64_def)

lemma calculateDividendYield_f64_sign:
  "x < 0 \<Longrightarrow> 0 < y \<Longrightarrow>
     \<exists>r. calculateDividendYield_f64 (Fin x) (Fin y) = Inr r \<and> (lt_zero r \<or> r = NegZero)"
  using percentage_sign [of x y] by (simp add: calculateDividendYield_f64_def)

lemma calculatePSR_f64_formula:
  "gt_zero b \<Longrightarrow> calculatePSR_f64 a b = Inr (fdiv a b)"
  by (simp add: calculatePSR_f64_def gt_zero_not_le_zero)

lemma calculateCurrentRatio_f64_formula:
  "gt_zero b \<Longrightarrow> calculateCurrentRatio_f64 a b = Inr (fmul (fdiv a b) (Fin 100))"
  by (simp add: calculateCurrentRatio_f64_def gt_zero_not_le_zero)

lemma calculateEquityRatio_f64_formula:
  "gt_zero b \<Longrightarrow> calculateEquityRatio_f64 a b = Inr (fmul (fdiv a b) (Fin 100))"
  by (simp add: calculateEquityRatio_f64_def gt_zero_not_le_zero)

lemma calculateCapExRatio_f64_formula:
  "gt_zero b \<Longrightarrow> calculateCapExRatio_f64 a b = Inr (fdiv a b)"
  by (simp add: calculateCapExRatio_f64_def gt_zero_not_le_zero)

lemma calculateRevenueGrowth_f64_formula:
  "gt_zero b \<Longrightarrow> calculateRevenueGrowth_f64 a b = Inr (fmul (fdiv (fsub a b) b) (Fin 100))"
  by (simp add: calculateRevenueGrowth_f64_def gt_zero_not_le_zero)

lemma calculateROE_f64_formula:
  "gt_zero b \<Longrightarrow> calculateROE_f64 a b = Inr (fmul (fdiv a b) (Fin 100))"
  by (simp add: calculateROE_f64_def gt_zero_not_le_zero)

lemma calculateROA_f64_formula:
  "gt_zero b \<Longrightarrow> calculateROA_f64 a b = Inr (fmul (fdiv a b) (Fin 100))"
  by (simp add: calculateROA_f64_def gt_zero_not_le_zero)

lemma calculateOperatingMargin_f64_formula:
  "gt_zero b \<Longrightarrow> calculateOperatingMargin_f64 a b = Inr (fmul (fdiv a b) (Fin 100))"
  by (simp add: calculateOperatingMargin_f64_def gt_zero_not_le_zero)

lemma calculatePER_f64_formula:
  "gt_zero b \<Longrightarrow> calculatePER_f64 a b = Inr (fdiv a b)"
  by (simp add: calculatePER_f64_def gt_zero_not_le_zero)

lemma calculatePBR_f64_formula:
  "gt_zero b \<Longrightarrow> calculatePBR_f64 a b = Inr (fdiv a b)"
  by (simp add: calculatePBR_f64_def gt_zero_not_le_zero)

lemma calculateDividendYield_f64_formula:
  "gt_zero b \<Longrightarrow> calculateDividendYield_f64 a b = Inr (fmul (fdiv a b) (Fin 100))"
  by (simp add: calculateDividendYield_f64_def gt_zero_not_le_zero)

text \<open>
  On finite operands the four plain ratios return the exact ratio, rounded once, and
  fail as the exact functions do.
\<close>

lemma calculatePSR_f64_rounds_exact:
  "calculatePSR_f64 (Fin a) (Fin b) = map_sum id round64 (calculatePSR a b)"
  by (simp add: calculatePSR_f64_def calculatePSR_def fdiv_def signed_zero_def round64_def)

lemma calculateCapExRatio_f64_rounds_exact:
  "calculateCapExRatio_f64 (Fin a) (Fin b) = map_sum id round64 (calculateCapExRatio a b)"
  by (simp add: calculateCapExRatio_f64_def calculateCapExRatio_def fdiv_def signed_zero_def round64_def)

lemma calculatePER_f64_rounds_exact:
  "calculatePER_f64 (Fin a) (Fin b) = map_sum id round64 (calculatePER a b)"
  by (simp add: calculatePER_f64_def calculatePER_def fdiv_def signed_zero_def round64_def)

lemma calculatePBR_f64_rounds_exact:
  "calculatePBR_f64 (Fin a) (Fin b) = map_sum id round64 (calculatePBR a b)"
  by (simp add: calculatePBR_f64_def calculatePBR_def fdiv_def signed_zero_def round64_def)

text \<open>
  The literal \<open>0.7\<close> of the source denotes the rounding of 7/10.
\<close>

lemma binary64_0_7_is_rounded: "round64 (7 / 10) = Fin binary64_0_7"
  by (subst round64_eval [where k = "- 1"])
    (simp_all add: pow2_def round_half_even_def Let_def binary64_0_7_def)

subsection \<open>Operations at concrete operands\<close>

lemma current_ratio_23_5_div:
  "fdiv (Fin 23) (Fin 5) = Fin (2589569785738035 / 562949953421312)"
  by (simp add: fdiv_def, subst round64_eval [where k = 2])
    (simp_all add: pow2_def round_half_even_def Let_def)

lemma current_ratio_23_5_mul:
  "fmul (Fin (2589569785738035 / 562949953421312)) (Fin 100) = Fin (8092405580431359 / 17592186044416)"
  by (simp add: fmul_def, subst round64_eval [where k = 8])
    (simp_all add: pow2_def round_half_even_def Let_def)

lemma roa_10000_300000_div:
  "fdiv (Fin 10000) (Fin 300000) = Fin (4803839602528529 / 144115188075855872)"
  by (simp add: fdiv_def, subst round64_eval [where k = "- 5"])
    (simp_all add: pow2_def round_half_even_def Let_def)

lemma roa_10000_300000_mul:
  "fmul (Fin (4803839602528529 / 144115188075855872)) (Fin 100) = Fin (7505999378950827 / 2251799813685248)"
  by (simp add: fmul_def, subst round64_eval [where k = 1])
    (simp_all add: pow2_def round_half_even_def Let_def)

lemma roe_near_five_div:
  "fdiv (Fin 7205759403792793) (Fin 144115188075855872) = Fin (7205759403792793 / 144115188075855872)"
  by (simp add: fdiv_def, subst round64_eval [where k = "- 5"])
    (simp_all add: pow2_def round_half_even_def Let_def)

lemma roe_near_five_mul:
  "fmul (Fin (7205759403792793 / 144115188075855872)) (Fin 100) = Fin 5"
  by (simp add: fmul_def, subst round64_eval [where k = 2])
    (simp_all add: pow2_def round_half_even_def Let_def)

lemma per_33_11_div:
  "fdiv (Fin 33) (Fin (2476979795053773 / 2251799813685248)) = Fin (8444249301319679 / 281474976710656)"
  by (simp add: fdiv_def, subst round64_eval [where k = 4])
    (simp_all add: pow2_def round_half_even_def Let_def)

lemma growth_100000_80000_sub:
  "fsub (Fin 100000) (Fin 80000) = Fin 20000"
  by (simp add: fsub_def, subst round64_eval [where k = 14])
    (simp_all add: pow2_def round_half_even_def Let_def)

lemma growth_100000_80000_div:
  "fdiv (Fin 20000) (Fin 80000) = Fin (1 / 4)"
  by (simp add: fdiv_def, subst round64_eval [where k = "- 2"])
    (simp_all add: pow2_def round_half_even_def Let_def)

lemma growth_100000_80000_mul:
  "fmul (Fin (1 / 4)) (Fin 100) = Fin 25"
  by (simp add: fmul_def, subst round64_eval [where k = 4])
    (simp_all add: pow2_def round_half_even_def Let_def)

lemma roe_loss_div:
  "fdiv (Fin (- 10000)) (Fin 300000) = Fin (- (4803839602528529 / 144115188075855872))"
  by (simp add: fdiv_def, subst round64_eval [where k = "- 5"])
    (simp_all add: pow2_def round_half_even_def Let_def)

lemma roe_loss_mul:
  "fmul (Fin (- (4803839602528529 / 144115188075855872))) (Fin 100) = Fin (- (7505999378950827 / 2251799813685248))"
  by (simp add: fmul_def, subst round64_eval [where k = 1])
    (simp_all add: pow2_def round_half_even_def Let_def)

lemma overflow_div:
  "fdiv (Fin (2 ^ 1023)) (Fin 1) = Fin (2 ^ 1023)"
  by (simp add: fdiv_def, subst round64_eval [where k = 1023])
    (simp_all add: pow2_def round_half_even_def Let_def)

lemma overflow_mul:
  "fmul (Fin (2 ^ 1023)) (Fin 100) = PosInf"
  by (simp add: fmul_def, subst round64_eval [where k = 1029])
    (simp_all add: pow2_def round_half_even_def Let_def)

lemma underflow_div:
  "fdiv (Fin (- (1 / 2 ^ 1074))) (Fin 2) = NegZero"
  by (simp add: fdiv_def, subst round64_eval [where k = "- 1075"])
    (simp_all add: pow2_def round_half_even_def Let_def)

lemma neg_zero_mul:
  "fmul NegZero (Fin 100) = NegZero"
  by (simp add: fmul_def signed_zero_def)


section \<open>Properties\<close>

text \<open>
  C1. Each of the eleven compute functions fails (throws) if and only if its denominator
  argument (for the revenue growth, the past revenue) is zero or negative; with a
  denominator that is strictly positive it returns a ratio. A failing call yields the
  error and no ratio at all.
\<close>

theorem compute_fails_iff_denominator_not_positive:
  "(\<forall>a b. (isl (calculatePSR a b) \<longleftrightarrow> b \<le> 0)
        \<and> (0 < b \<longrightarrow> (\<exists>r. calculatePSR a b = Inr r)))
   \<and> (\<forall>a b. (isl (calculateCurrentRatio a b) \<longleftrightarrow> b \<le> 0)
        \<and> (0 < b \<longrightarrow> (\<exists>r. calculateCurrentRatio a b = Inr r)))
   \<and> (\<forall>a b. (isl (calculateEquityRatio a b) \<longleftrightarrow> b \<le> 0)
        \<and> (0 < b \<longrightarrow> (\<exists>r. calculateEquityRatio a b = Inr r)))
   \<and> (\<forall>a b. (isl (calculateCapExRatio a b) \<longleftrightarrow> b \<le> 0)
        \<and> (0 < b \<longrightarrow> (\<exists>r. calculateCapExRatio a b = Inr r)))
   \<and> (\<forall>a b. (isl (calculateRevenueGrowth a b) \<longleftrightarrow> b \<le> 0)
        \<and> (0 < b \<longrightarrow> (\<exists>r. calculateRevenueGrowth a b = Inr r)))
   \<and> (\<forall>a b. (isl (calculateROE a b) \<longleftrightarrow> b \<le> 0)
        \<and> (0 < b \<longrightarrow> (\<exists>r. calculateROE a b = Inr r)))
   \<and> (\<forall>a b. (isl (calculateROA a b) \<longleftrightarrow> b \<le> 0)
        \<and> (0 < b \<longrightarrow> (\<exists>r. calculateROA a b = Inr r)))
   \<and> (\<forall>a b. (isl (calculateOperatingMargin a b) \<longleftrightarrow> b \<le> 0)
        \<and> (0 < b \<longrightarrow> (\<exists>r. calculateOperatingMargin a b = Inr r)))
   \<and> (\<forall>a b. (isl (calculatePER a b) \<longleftrightarrow> b \<le> 0)
        \<and> (0 < b \<longrightarrow> (\<exists>r. calculatePER a b = Inr r)))
   \<and> (\<forall>a b. (isl (calculatePBR a b) \<longleftrightarrow> b \<le> 0)
        \<and> (0 < b \<longrightarrow> (\<exists>r. calculatePBR a b = Inr r)))
   \<and> (\<forall>a b. (isl (calculateDividendYield a b) \<longleftrightarrow> b \<le> 0)
        \<and> (0 < b \<longrightarrow> (\<exists>r. calculateDividendYield a b = Inr r)))"
  by (simp add: calculate_defs)

theorem compute_fails_iff_denominator_not_positive_witness:
  "isl (calculatePSR 500000 0) \<and> isl (calculateROE 10000 (- 5))
   \<and> \<not> isl (calculatePSR 500000 100000)
   \<and> (0 < (2500::real) \<and> (\<exists>r. calculateDividendYield 100 2500 = Inr r))"
  using compute_fails_iff_denominator_not_positive by simp

text \<open>
  C2. With a strictly positive denominator each compute function returns the value of
  its formula in the specification's table, computed as the code computes it, in binary64
  arithmetic: the quotient for PSR, CapEx ratio, PER and PBR, the quotient times 100 for
  the percentage metrics, and (current - past) / past * 100 for the revenue growth, each
  operation rounded to the nearest binary64 number. On finite operands the quotient
  (for the revenue growth, the difference) is the rounding of the exact one. So the
  current ratio of 23 over 5 is 459.99999999999994 and not 460, and a product that
  overflows is the infinity.
\<close>

theorem compute_returns_formula:
  "(\<forall>a b. gt_zero b \<longrightarrow> calculatePSR_f64 a b = Inr (fdiv a b))
   \<and> (\<forall>x y. 0 < y \<longrightarrow> calculatePSR_f64 (Fin x) (Fin y) = Inr (round64 (x / y)))
   \<and> (\<forall>a b. gt_zero b \<longrightarrow> calculateCurrentRatio_f64 a b = Inr (fmul (fdiv a b) (Fin 100)))
   \<and> (\<forall>x y. 0 < y \<longrightarrow> calculateCurrentRatio_f64 (Fin x) (Fin y) = Inr (fmul (round64 (x / y)) (Fin 100)))
   \<and> (\<forall>a b. gt_zero b \<longrightarrow> calculateEquityRatio_f64 a b = Inr (fmul (fdiv a b) (Fin 100)))
   \<and> (\<forall>x y. 0 < y \<longrightarrow> calculateEquityRatio_f64 (Fin x) (Fin y) = Inr (fmul (round64 (x / y)) (Fin 100)))
   \<and> (\<forall>a b. gt_zero b \<longrightarrow> calculateCapExRatio_f64 a b = Inr (fdiv a b))
   \<and> (\<forall>x y. 0 < y \<longrightarrow> calculateCapExRatio_f64 (Fin x) (Fin y) = Inr (round64 (x / y)))
   \<and> (\<forall>a b. gt_zero b \<longrightarrow> calculateRevenueGrowth_f64 a b = Inr (fmul (fdiv (fsub a b) b) (Fin 100)))
   \<and> (\<forall>x y. 0 < y \<longrightarrow> calculateRevenueGrowth_f64 (Fin x) (Fin y) = Inr (fmul (fdiv (round64 (x - y)) (Fin y)) (Fin 100)))
   \<and> (\<forall>a b. gt_zero b \<longrightarrow> calculateROE_f64 a b = Inr (fmul (fdiv a b) (Fin 100)))
   \<and> (\<forall>x y. 0 < y \<longrightarrow> calculateROE_f64 (Fin x) (Fin y) = Inr (fmul (round64 (x / y)) (Fin 100)))
   \<and> (\<forall>a b. gt_zero b \<longrightarrow> calculateROA_f64 a b = Inr (fmul (fdiv a b) (Fin 100)))
   \<and> (\<forall>x y. 0 < y \<longrightarrow> calculateROA_f64 (Fin x) (Fin y) = Inr (fmul (round64 (x / y)) (Fin 100)))
   \<and> (\<forall>a b. gt_zero b \<longrightarrow> calculateOperatingMargin_f64 a b = Inr (fmul (fdiv a b) (Fin 100)))
   \<and> (\<forall>x y. 0 < y \<longrightarrow> calculateOperatingMargin_f64 (Fin x) (Fin y) = Inr (fmul (round64 (x / y)) (Fin 100)))
   \<and> (\<forall>a b. gt_zero b \<longrightarrow> calculatePER_f64 a b = Inr (fdiv a b))
   \<and> (\<forall>x y. 0 < y \<longrightarrow> calculatePER_f64 (Fin x) (Fin y) = Inr (round64 (x / y)))
   \<and> (\<forall>a b. gt_zero b \<longrightarrow> calculatePBR_f64 a b = Inr (fdiv a b))
   \<and> (\<forall>x y. 0 < y \<longrightarrow> calculatePBR_f64 (Fin x) (Fin y) = Inr (round64 (x / y)))
   \<and> (\<forall>a b. gt_zero b \<longrightarrow> calculateDividendYield_f64 a b = Inr (fmul (fdiv a b) (Fin 100)))
   \<and> (\<forall>x y. 0 < y \<longrightarrow> calculateDividendYield_f64 (Fin x) (Fin y) = Inr (fmul (round64 (x / y)) (Fin 100)))"
  by (simp add: calculate_f64_defs gt_zero_not_le_zero fdiv_finite fsub_finite)

theorem compute_returns_formula_witness:
  "gt_zero (Fin 5)
   \<and> calculateCurrentRatio_f64 (Fin 23) (Fin 5) = Inr (Fin (8092405580431359 / 17592186044416))
   \<and> gt_zero (Fin 300000)
   \<and> calculateROA_f64 (Fin 10000) (Fin 300000) = Inr (Fin (7505999378950827 / 2251799813685248))
   \<and> gt_zero (Fin 144115188075855872)
   \<and> calculateROE_f64 (Fin 7205759403792793) (Fin 144115188075855872) = Inr (Fin 5)
   \<and> gt_zero (Fin (2476979795053773 / 2251799813685248))
   \<and> calculatePER_f64 (Fin 33) (Fin (2476979795053773 / 2251799813685248))
       = Inr (Fin (8444249301319679 / 281474976710656))
   \<and> gt_zero (Fin 80000)
   \<and> calculateRevenueGrowth_f64 (Fin 100000) (Fin 80000) = Inr (Fin 25)
   \<and> gt_zero (Fin 1)
   \<and> calculateROE_f64 (Fin (2 ^ 1023)) (Fin 1) = Inr PosInf"
proof -
  note formula = compute_returns_formula
  have cr: "calculateCurrentRatio_f64 (Fin 23) (Fin 5)
      = Inr (fmul (fdiv (Fin 23) (Fin 5)) (Fin 100))"
    using formula by simp
  have roa: "calculateROA_f64 (Fin 10000) (Fin 300000)
      = Inr (fmul (fdiv (Fin 10000) (Fin 300000)) (Fin 100))"
    using formula by simp
  have roe: "calculateROE_f64 (Fin 7205759403792793) (Fin 144115188075855872)
      = Inr (fmul (fdiv (Fin 7205759403792793) (Fin 144115188075855872)) (Fin 100))"
    using formula by simp
  have per: "calculatePER_f64 (Fin 33) (Fin (2476979795053773 / 2251799813685248))
      = Inr (fdiv (Fin 33) (Fin (2476979795053773 / 2251799813685248)))"
    using formula by simp
  have growth: "calculateRevenueGrowth_f64 (Fin 100000) (Fin 80000)
      = Inr (fmul (fdiv (fsub (Fin 100000) (Fin 80000)) (Fin 80000)) (Fin 100))"
    using formula by simp
  have big: "calculateROE_f64 (Fin (2 ^ 1023)) (Fin 1)
      = Inr (fmul (fdiv (Fin (2 ^ 1023)) (Fin 1)) (Fin 100))"
    using formula by simp
  have pos: "gt_zero (Fin 5)" "gt_zero (Fin 300000)" "gt_zero (Fin 144115188075855872)"
    "gt_zero (Fin (2476979795053773 / 2251799813685248))" "gt_zero (Fin 80000)"
    "gt_zero (Fin 1)"
    by simp_all
  show ?thesis
    unfolding cr roa roe per growth big
      current_ratio_23_5_div current_ratio_23_5_mul
      roa_10000_300000_div roa_10000_300000_mul
      roe_near_five_div roe_near_five_mul per_33_11_div
      growth_100000_80000_sub growth_100000_80000_div growth_100000_80000_mul
      overflow_div overflow_mul
    using pos by (intro conjI) (rule refl | assumption)+
qed

text \<open>
  C3. Each of the eleven classifiers splits the real line into four contiguous bands
  that cover it and do not overlap: the level returned for a ratio is the one given by
  trying the rows of the threshold table in order, the first matching row winning and a
  ratio that matches no row getting the last level; a ratio gets a level exactly when it
  lies in that level's interval; and every ratio, negative or arbitrarily large, lies in
  exactly one interval.
\<close>

theorem classify_bands_partition:
  "(\<forall>r. level (getPSRJudgment r) =
        first_lt [(1, PSR_undervalued), (2, PSR_fair), (5, PSR_high)] PSR_very_high r)
   \<and> (\<forall>r l. level (getPSRJudgment r) = l \<longleftrightarrow> r \<in> PSR_band l)
   \<and> (\<forall>r. \<exists>!l. r \<in> PSR_band l)
   \<and> (\<forall>r. level (getCurrentRatioJudgment r) =
        first_ge [(200, Safety_excellent), (150, Safety_good), (100, Safety_fair)] Safety_warning r)
   \<and> (\<forall>r l. level (getCurrentRatioJudgment r) = l \<longleftrightarrow> r \<in> CurrentRatio_band l)
   \<and> (\<forall>r. \<exists>!l. r \<in> CurrentRatio_band l)
   \<and> (\<forall>r. level (getEquityRatioJudgment r) =
        first_ge [(50, Safety_excellent), (40, Safety_good), (20, Safety_fair)] Safety_warning r)
   \<and> (\<forall>r l. level (getEquityRatioJudgment r) = l \<longleftrightarrow> r \<in> EquityRatio_band l)
   \<and> (\<forall>r. \<exists>!l. r \<in> EquityRatio_band l)
   \<and> (\<forall>r. level (getCapExRatioJudgment r) =
        first_ge [(1.5, Growth_strong), (1.0, Growth_moderate), (binary64_0_7, Growth_stable)]
          Growth_declining r)
   \<and> (\<forall>r l. level (getCapExRatioJudgment r) = l \<longleftrightarrow> r \<in> CapExRatio_band l)
   \<and> (\<forall>r. \<exists>!l. r \<in> CapExRatio_band l)
   \<and> (\<forall>r. level (getRevenueGrowthJudgment r) =
        first_ge [(50, Growth_strong), (20, Growth_moderate), (0, Growth_stable)] Growth_declining r)
   \<and> (\<forall>r l. level (getRevenueGrowthJudgment r) = l \<longleftrightarrow> r \<in> RevenueGrowth_band l)
   \<and> (\<forall>r. \<exists>!l. r \<in> RevenueGrowth_band l)
   \<and> (\<forall>r. level (getROEJudgment r) =
        first_ge [(15, Prof_excellent), (10, Prof_good), (5, Prof_fair)] Prof_poor r)
   \<and> (\<forall>r l. level (getROEJudgment r) = l \<longleftrightarrow> r \<in> ROE_band l)
   \<and> (\<forall>r. \<exists>!l. r \<in> ROE_band l)
   \<and> (\<forall>r. level (getROAJudgment r) =
        first_ge [(10, Prof_excellent), (5, Prof_good), (2, Prof_fair)] Prof_poor r)
   \<and> (\<forall>r l. level (getROAJudgment r) = l \<longleftrightarrow> r \<in> ROA_band l)
   \<and> (\<forall>r. \<exists>!l. r \<in> ROA_band l)
   \<and> (\<forall>r. level (getOperatingMarginJudgment r) =
        first_ge [(20, Prof_excellent), (10, Prof_good), (5, Prof_fair)] Prof_poor r)
   \<and> (\<forall>r l. level (getOperatingMarginJudgment r) = l \<longleftrightarrow> r \<in> OperatingMargin_band l)
   \<and> (\<forall>r. \<exists>!l. r \<in> OperatingMargin_band l)
   \<and> (\<forall>r. level (getPERJudgment r) =
        first_lt [(10, Val_undervalued), (20, Val_fair), (30, Val_overvalued)] Val_very_overvalued r)
   \<and> (\<forall>r l. level (getPERJudgment r) = l \<longleftrightarrow> r \<in> PER_band l)
   \<and> (\<forall>r. \<exists>!l. r \<in> PER_band l)
   \<and> (\<forall>r. level (getPBRJudgment r) =
        first_lt [(1, Val_undervalued), (2, Val_fair), (3, Val_overvalued)] Val_very_overvalued r)
   \<and> (\<forall>r l. level (getPBRJudgment r) = l \<longleftrightarrow> r \<in> PBR_band l)
   \<and> (\<forall>r. \<exists>!l. r \<in> PBR_band l)
   \<and> (\<forall>r. level (getDividendYieldJudgment r) =
        first_ge [(4, Val_undervalued), (2, Val_fair), (1, Val_overvalued)] Val_very_overvalued r)
   \<and> (\<forall>r l. level (getDividendYieldJudgment r) = l \<longleftrightarrow> r \<in> DividendYield_band l)
   \<and> (\<forall>r. \<exists>!l. r \<in> DividendYield_band l)"
  by (simp add: getPSRJudgment_level getCurrentRatioJudgment_level
      getEquityRatioJudgment_level getCapExRatioJudgment_level
      getRevenueGrowthJudgment_level getROEJudgment_level getROAJudgment_level
      getOperatingMarginJudgment_level getPERJudgment_level getPBRJudgment_level
      getDividendYieldJudgment_level
      getPSRJudgment_in_band [symmetric] getCurrentRatioJudgment_in_band [symmetric]
      getEquityRatioJudgment_in_band [symmetric] getCapExRatioJudgment_in_band [symmetric]
      getRevenueGrowthJudgment_in_band [symmetric] getROEJudgment_in_band [symmetric]
      getROAJudgment_in_band [symmetric] getOperatingMarginJudgment_in_band [symmetric]
      getPERJudgment_in_band [symmetric] getPBRJudgment_in_band [symmetric]
      getDividendYieldJudgment_in_band [symmetric])

theorem classify_bands_partition_witness:
  "level (getPSRJudgment (- 3)) = PSR_undervalued \<and> level (getPSRJudgment 1000000) = PSR_very_high
   \<and> level (getROEJudgment (- 3)) = Prof_poor \<and> level (getROEJudgment 1000000) = Prof_excellent
   \<and> level (getCapExRatioJudgment (3152519739159347 / 4503599627370496)) = Growth_stable
   \<and> 3152519739159347 / 4503599627370496 \<in> CapExRatio_band Growth_stable
   \<and> level (getCapExRatioJudgment (3152519739159346 / 4503599627370496)) = Growth_declining
   \<and> (\<exists>!l. 29.5 \<in> PER_band l)"
  using classify_bands_partition by (simp add: CapExRatio_band_def binary64_0_7_def)

text \<open>
  C4. Boundary values fall on the side the interval rules give: a PSR of exactly 1 is
  classified fair and not undervalued, a current ratio of exactly 200 is excellent, and
  a PER of exactly 10 is fair and not undervalued.
\<close>

theorem boundary_values:
  "level (getPSRJudgment 1.0) = PSR_fair
   \<and> level (getPSRJudgment 1.0) \<noteq> PSR_undervalued
   \<and> level (getCurrentRatioJudgment 200.0) = Safety_excellent
   \<and> level (getPERJudgment 10.0) = Val_fair
   \<and> level (getPERJudgment 10.0) \<noteq> Val_undervalued"
  by (simp add: getPSRJudgment_def getCurrentRatioJudgment_def getPERJudgment_def)

text \<open>
  C5. End to end: a market capitalisation of 500000 over a revenue of 100000 gives a PSR
  of exactly 5, which is classified very-high (the band from 5 on); an annual dividend of
  100 on a stock price of 2500 gives a yield of exactly 4 percent, which is classified
  undervalued, the high-yield band (from 4 on).
\<close>

theorem end_to_end_scenarios:
  "calculatePSR 500000 100000 = Inr 5.0
   \<and> map_sum id (\<lambda>r. level (getPSRJudgment r)) (calculatePSR 500000 100000)
       = Inr PSR_very_high
   \<and> 5.0 \<in> PSR_band PSR_very_high
   \<and> calculateDividendYield 100 2500 = Inr 4.0
   \<and> map_sum id (\<lambda>r. level (getDividendYieldJudgment r)) (calculateDividendYield 100 2500)
       = Inr Val_undervalued
   \<and> 4.0 \<in> DividendYield_band Val_undervalued"
  by (simp add: calculatePSR_def calculateDividendYield_def getPSRJudgment_level
      getDividendYieldJudgment_level PSR_band_def DividendYield_band_def)

text \<open>
  C6. An annual dividend of zero is a valid input: for every strictly positive stock
  price the dividend yield is computed without failure, it is 0, and 0 is classified
  very-overvalued, the last band (the no-dividend band, below 1).
\<close>

theorem zero_dividend_is_valid:
  "0 < stockPrice \<Longrightarrow>
     calculateDividendYield 0 stockPrice = Inr 0
     \<and> map_sum id (\<lambda>r. level (getDividendYieldJudgment r))
          (calculateDividendYield 0 stockPrice) = Inr Val_very_overvalued
     \<and> 0 \<in> DividendYield_band Val_very_overvalued"
  by (simp add: calculateDividendYield_def getDividendYieldJudgment_level
      DividendYield_band_def)

theorem zero_dividend_is_valid_witness:
  "0 < (2500::real) \<and> calculateDividendYield 0 2500 = Inr 0
   \<and> map_sum id (\<lambda>r. level (getDividendYieldJudgment r))
        (calculateDividendYield 0 2500) = Inr Val_very_overvalued
   \<and> 0 \<in> DividendYield_band Val_very_overvalued"
proof -
  have price: "0 < (2500::real)"
    by simp
  from price zero_dividend_is_valid [OF price] show ?thesis
    by blast
qed

text \<open>
  C8. No compute function checks its first operand: for every first argument, negative
  ones, infinities and not-a-number included, and every strictly positive second
  argument the function does not fail and returns the value of its formula in binary64
  arithmetic. With finite operands, a negative first argument gives a result that is
  negative or, where the quotient underflows, the negative zero. The result is not
  always a negative percentage: the return on equity of \<open>- 2^(- 1074)\<close>, the negative
  number nearest to zero, over 2 is the negative zero, which is not less than zero.
\<close>

theorem negative_numerator_underflow_counterexample:
  "lt_zero (Fin (- (1 / 2 ^ 1074))) \<and> gt_zero (Fin 2)
   \<and> calculateROE_f64 (Fin (- (1 / 2 ^ 1074))) (Fin 2) = Inr NegZero
   \<and> \<not> lt_zero NegZero"
proof -
  have "\<not> le_zero (Fin 2)"
    by simp
  then have "calculateROE_f64 (Fin (- (1 / 2 ^ 1074))) (Fin 2)
      = Inr (fmul (fdiv (Fin (- (1 / 2 ^ 1074))) (Fin 2)) (Fin 100))"
    by (simp add: calculateROE_f64_def)
  then have "calculateROE_f64 (Fin (- (1 / 2 ^ 1074))) (Fin 2) = Inr NegZero"
    by (simp only: underflow_div neg_zero_mul)
  then show ?thesis
    by simp
qed

theorem numerator_not_validated:
  "(\<forall>a b. gt_zero b \<longrightarrow> calculatePSR_f64 a b = Inr (fdiv a b))
   \<and> (\<forall>x y. x < 0 \<and> 0 < y \<longrightarrow>
        (\<exists>r. calculatePSR_f64 (Fin x) (Fin y) = Inr r \<and> (lt_zero r \<or> r = NegZero)))
   \<and> (\<forall>a b. gt_zero b \<longrightarrow> calculateCurrentRatio_f64 a b = Inr (fmul (fdiv a b) (Fin 100)))
   \<and> (\<forall>x y. x < 0 \<and> 0 < y \<longrightarrow>
        (\<exists>r. calculateCurrentRatio_f64 (Fin x) (Fin y) = Inr r \<and> (lt_zero r \<or> r = NegZero)))
   \<and> (\<forall>a b. gt_zero b \<longrightarrow> calculateEquityRatio_f64 a b = Inr (fmul (fdiv a b) (Fin 100)))
   \<and> (\<forall>x y. x < 0 \<and> 0 < y \<longrightarrow>
        (\<exists>r. calculateEquityRatio_f64 (Fin x) (Fin y) = Inr r \<and> (lt_zero r \<or> r = NegZero)))
   \<and> (\<forall>a b. gt_zero b \<longrightarrow> calculateCapExRatio_f64 a b = Inr (fdiv a b))
   \<and> (\<forall>x y. x < 0 \<and> 0 < y \<longrightarrow>
        (\<exists>r. calculateCapExRatio_f64 (Fin x) (Fin y) = Inr r \<and> (lt_zero r \<or> r = NegZero)))
   \<and> (\<forall>a b. gt_zero b \<longrightarrow> calculateRevenueGrowth_f64 a b = Inr (fmul (fdiv (fsub a b) b) (Fin 100)))
   \<and> (\<forall>x y. x < 0 \<and> 0 < y \<longrightarrow>
        (\<exists>r. calculateRevenueGrowth_f64 (Fin x) (Fin y) = Inr r \<and> (lt_zero r \<or> r = NegZero)))
   \<and> (\<forall>a b. gt_zero b \<longrightarrow> calculateROE_f64 a b = Inr (fmul (fdiv a b) (Fin 100)))
   \<and> (\<forall>x y. x < 0 \<and> 0 < y \<longrightarrow>
        (\<exists>r. calculateROE_f64 (Fin x) (Fin y) = Inr r \<and> (lt_zero r \<or> r = NegZero)))
   \<and> (\<forall>a b. gt_zero b \<longrightarrow> calculateROA_f64 a b = Inr (fmul (fdiv a b) (Fin 100)))
   \<and> (\<forall>x y. x < 0 \<and> 0 < y \<longrightarrow>
        (\<exists>r. calculateROA_f64 (Fin x) (Fin y) = Inr r \<and> (lt_zero r \<or> r = NegZero)))
   \<and> (\<forall>a b. gt_zero b \<longrightarrow> calculateOperatingMargin_f64 a b = Inr (fmul (fdiv a b) (Fin 100)))
   \<and> (\<forall>x y. x < 0 \<and> 0 < y \<longrightarrow>
        (\<exists>r. calculateOperatingMargin_f64 (Fin x) (Fin y) = Inr r \<and> (lt_zero r \<or> r = NegZero)))
   \<and> (\<forall>a b. gt_zero b \<longrightarrow> calculatePER_f64 a b = Inr (fdiv a b))
   \<and> (\<forall>x y. x < 0 \<and> 0 < y \<longrightarrow>
        (\<exists>r. calculatePER_f64 (Fin x) (Fin y) = Inr r \<and> (lt_zero r \<or> r = NegZero)))
   \<and> (\<forall>a b. gt_zero b \<longrightarrow> calculatePBR_f64 a b = Inr (fdiv a b))
   \<and> (\<forall>x y. x < 0 \<and> 0 < y \<longrightarrow>
        (\<exists>r. calculatePBR_f64 (Fin x) (Fin y) = Inr r \<and> (lt_zero r \<or> r = NegZero)))
   \<and> (\<forall>a b. gt_zero b \<longrightarrow> calculateDividendYield_f64 a b = Inr (fmul (fdiv a b) (Fin 100)))
   \<and> (\<forall>x y. x < 0 \<and> 0 < y \<longrightarrow>
        (\<exists>r. calculateDividendYield_f64 (Fin x) (Fin y) = Inr r \<and> (lt_zero r \<or> r = NegZero)))"
  by (intro conjI allI impI; (elim conjE)?;
      (rule calculatePSR_f64_formula
        calculateCurrentRatio_f64_formula
        calculateEquityRatio_f64_formula
        calculateCapExRatio_f64_formula
        calculateRevenueGrowth_f64_formula
        calculateROE_f64_formula
        calculateROA_f64_formula
        calculateOperatingMargin_f64_formula
        calculatePER_f64_formula
        calculatePBR_f64_formula
        calculateDividendYield_f64_formula
        calculatePSR_f64_sign
        calculateCurrentRatio_f64_sign
        calculateEquityRatio_f64_sign
        calculateCapExRatio_f64_sign
        calculateRevenueGrowth_f64_sign
        calculateROE_f64_sign
        calculateROA_f64_sign
        calculateOperatingMargin_f64_sign
        calculatePER_f64_sign
        calculatePBR_f64_sign
        calculateDividendYield_f64_sign;
       assumption))

theorem numerator_not_validated_witness:
  "gt_zero (Fin 300000)
   \<and> calculateROE_f64 (Fin (- 10000)) (Fin 300000)
       = Inr (fmul (fdiv (Fin (- 10000)) (Fin 300000)) (Fin 100))
   \<and> fmul (fdiv (Fin (- 10000)) (Fin 300000)) (Fin 100)
       = Fin (- (7505999378950827 / 2251799813685248))
   \<and> (- 10000::real) < 0 \<and> (0::real) < 300000
   \<and> (\<exists>r. calculateROE_f64 (Fin (- 10000)) (Fin 300000) = Inr r \<and> (lt_zero r \<or> r = NegZero))"
proof -
  note nv = numerator_not_validated
  have pos: "gt_zero (Fin 300000)"
    by simp
  have ops: "(- 10000::real) < 0 \<and> (0::real) < 300000"
    by simp
  have roe: "\<forall>a b. gt_zero b \<longrightarrow> calculateROE_f64 a b = Inr (fmul (fdiv a b) (Fin 100))"
    using nv by - (elim conjE, assumption)
  have sgn: "\<forall>x y. x < 0 \<and> 0 < y \<longrightarrow>
      (\<exists>r. calculateROE_f64 (Fin x) (Fin y) = Inr r \<and> (lt_zero r \<or> r = NegZero))"
    using nv by - (elim conjE, assumption)
  have val: "fmul (fdiv (Fin (- 10000)) (Fin 300000)) (Fin 100)
      = Fin (- (7505999378950827 / 2251799813685248))"
    by (simp only: roe_loss_div roe_loss_mul)
  from pos ops val roe [rule_format, OF pos, of "Fin (- 10000)"] sgn [rule_format, OF ops]
  show ?thesis
    by (intro conjI) (elim conjE, assumption)+
qed

text \<open>
  C9. The level of each classifier is monotone in the ratio. For the classifiers whose
  rows test \<open>ratio < threshold\<close> (PSR, PER, PBR) a larger ratio never gets a more
  favourable level: for \<open>x \<le> y\<close> the level of \<open>x\<close> comes before or equals the level
  of \<open>y\<close> in the order of the level type. For the classifiers whose rows test
  \<open>ratio \<ge> threshold\<close> (the other eight) it is the other way round: the level of
  \<open>y\<close> comes before or equals the level of \<open>x\<close>.
\<close>

theorem classify_level_monotone:
  "(\<forall>x y. x \<le> y \<longrightarrow>
        PSRLevel_rank (level (getPSRJudgment x)) \<le> PSRLevel_rank (level (getPSRJudgment y)))
   \<and> (\<forall>x y. x \<le> y \<longrightarrow>
        SafetyLevel_rank (level (getCurrentRatioJudgment y)) \<le> SafetyLevel_rank (level (getCurrentRatioJudgment x)))
   \<and> (\<forall>x y. x \<le> y \<longrightarrow>
        SafetyLevel_rank (level (getEquityRatioJudgment y)) \<le> SafetyLevel_rank (level (getEquityRatioJudgment x)))
   \<and> (\<forall>x y. x \<le> y \<longrightarrow>
        GrowthLevel_rank (level (getCapExRatioJudgment y)) \<le> GrowthLevel_rank (level (getCapExRatioJudgment x)))
   \<and> (\<forall>x y. x \<le> y \<longrightarrow>
        GrowthLevel_rank (level (getRevenueGrowthJudgment y)) \<le> GrowthLevel_rank (level (getRevenueGrowthJudgment x)))
   \<and> (\<forall>x y. x \<le> y \<longrightarrow>
        ProfitabilityLevel_rank (level (getROEJudgment y)) \<le> ProfitabilityLevel_rank (level (getROEJudgment x)))
   \<and> (\<forall>x y. x \<le> y \<longrightarrow>
        ProfitabilityLevel_rank (level (getROAJudgment y)) \<le> ProfitabilityLevel_rank (level (getROAJudgment x)))
   \<and> (\<forall>x y. x \<le> y \<longrightarrow>
        ProfitabilityLevel_rank (level (getOperatingMarginJudgment y)) \<le> ProfitabilityLevel_rank (level (getOperatingMarginJudgment x)))
   \<and> (\<forall>x y. x \<le> y \<longrightarrow>
        ValuationLevel_rank (level (getPERJudgment x)) \<le> ValuationLevel_rank (level (getPERJudgment y)))
   \<and> (\<forall>x y. x \<le> y \<longrightarrow>
        ValuationLevel_rank (level (getPBRJudgment x)) \<le> ValuationLevel_rank (level (getPBRJudgment y)))
   \<and> (\<forall>x y. x \<le> y \<longrightarrow>
        ValuationLevel_rank (level (getDividendYieldJudgment y)) \<le> ValuationLevel_rank (level (getDividendYieldJudgment x)))"
  by (simp add: getPSRJudgment_mono getCurrentRatioJudgment_mono
      getEquityRatioJudgment_mono getCapExRatioJudgment_mono
      getRevenueGrowthJudgment_mono getROEJudgment_mono getROAJudgment_mono
      getOperatingMarginJudgment_mono getPERJudgment_mono getPBRJudgment_mono
      getDividendYieldJudgment_mono)

theorem classify_level_monotone_witness:
  "(5::real) \<le> 25
   \<and> ValuationLevel_rank (level (getPERJudgment 5))
       \<le> ValuationLevel_rank (level (getPERJudgment 25))
   \<and> (7::real) \<le> 12
   \<and> ProfitabilityLevel_rank (level (getROEJudgment 12))
       \<le> ProfitabilityLevel_rank (level (getROEJudgment 7))"
proof -
  have per: "(5::real) \<le> 25" and roe: "(7::real) \<le> 12"
    by simp_all
  from classify_level_monotone per roe show ?thesis
    by blast
qed

text \<open>
  C10. The compute functions do not depend on the unit of their operands: over exact
  arithmetic, multiplying both operands by the same factor \<open>k > 0\<close> leaves the result
  of each of the eleven functions unchanged, for every operand pair with a strictly
  positive denominator.
\<close>

theorem compute_scale_invariant:
  "(\<forall>k a b. 0 < k \<and> 0 < b \<longrightarrow>
        calculatePSR (k * a) (k * b) = calculatePSR a b)
   \<and> (\<forall>k a b. 0 < k \<and> 0 < b \<longrightarrow>
        calculateCurrentRatio (k * a) (k * b) = calculateCurrentRatio a b)
   \<and> (\<forall>k a b. 0 < k \<and> 0 < b \<longrightarrow>
        calculateEquityRatio (k * a) (k * b) = calculateEquityRatio a b)
   \<and> (\<forall>k a b. 0 < k \<and> 0 < b \<longrightarrow>
        calculateCapExRatio (k * a) (k * b) = calculateCapExRatio a b)
   \<and> (\<forall>k a b. 0 < k \<and> 0 < b \<longrightarrow>
        calculateRevenueGrowth (k * a) (k * b) = calculateRevenueGrowth a b)
   \<and> (\<forall>k a b. 0 < k \<and> 0 < b \<longrightarrow>
        calculateROE (k * a) (k * b) = calculateROE a b)
   \<and> (\<forall>k a b. 0 < k \<and> 0 < b \<longrightarrow>
        calculateROA (k * a) (k * b) = calculateROA a b)
   \<and> (\<forall>k a b. 0 < k \<and> 0 < b \<longrightarrow>
        calculateOperatingMargin (k * a) (k * b) = calculateOperatingMargin a b)
   \<and> (\<forall>k a b. 0 < k \<and> 0 < b \<longrightarrow>
        calculatePER (k * a) (k * b) = calculatePER a b)
   \<and> (\<forall>k a b. 0 < k \<and> 0 < b \<longrightarrow>
        calculatePBR (k * a) (k * b) = calculatePBR a b)
   \<and> (\<forall>k a b. 0 < k \<and> 0 < b \<longrightarrow>
        calculateDividendYield (k * a) (k * b) = calculateDividendYield a b)"
  by (simp add: calculate_defs scaled_denominator scaled_growth)

theorem compute_scale_invariant_witness:
  "0 < (1000::real) \<and> 0 < (100::real)
   \<and> calculatePSR (1000 * 500) (1000 * 100) = calculatePSR 500 100
   \<and> calculateRevenueGrowth (1000 * 120) (1000 * 100) = calculateRevenueGrowth 120 100"
proof -
  have h: "0 < (1000::real) \<and> 0 < (100::real)"
    by simp
  have psr: "\<forall>k a b. 0 < k \<and> 0 < b \<longrightarrow>
      calculatePSR (k * a) (k * b) = calculatePSR a b"
    using compute_scale_invariant by simp
  have growth: "\<forall>k a b. 0 < k \<and> 0 < b \<longrightarrow>
      calculateRevenueGrowth (k * a) (k * b) = calculateRevenueGrowth a b"
    using compute_scale_invariant by simp
  from h psr [rule_format, OF h, where a = 500]
    growth [rule_format, OF h, where a = 120]
  show ?thesis
    by (intro conjI) (elim conjE, assumption)+
qed

end
